theory Spec2Isabelle
  imports Main "HOL-Library.Sublist"
begin

section \<open>Conversa: the conversation turn engine and its model routing\<close>

text \<open>
  The development embeds the decision logic of the chat backend:
  \<^item> \<open>services/ai.ts\<close>: \<open>detectComplexity\<close>, \<open>selectModelForTenant\<close>,
    \<open>generateResponse\<close> and the three provider adapters it dispatches to;
  \<^item> \<open>services/database.ts\<close>: \<open>checkTenantLimits\<close>;
  \<^item> \<open>middleware/auth.ts\<close>: \<open>validateWidgetAccess\<close> and \<open>checkUsageLimits\<close>;
  \<^item> the chat route: the handler of \<open>POST /message\<close> and its middleware chain.

  A JavaScript string is modelled as a \<^typ>\<open>string\<close> whose characters are the UTF-16
  code units \<open>0..255\<close> (ASCII and the Latin-1 supplement, which covers Spanish text), so
  \<^term>\<open>length\<close> is the \<open>length\<close> property of the source string. Requests are
  processed one at a time: a function takes the world before and returns the world
  after. The tables are always available; a failing storage call is not modelled.
\<close>

subsection \<open>Strings: \<open>toLowerCase\<close>, regular-expression tests, \<open>includes\<close>\<close>

text \<open>
  \<open>String.prototype.toLowerCase\<close> on code units below 256: the letters \<open>A..Z\<close>
  (65..90) and the Latin-1 capitals 192..222 except the multiplication sign 215 move up
  by 32; every other unit is unchanged.
\<close>

definition lowerChar :: "char \<Rightarrow> char" where
  "lowerChar c =
     (let n = (of_char c :: nat)
      in if (65 \<le> n \<and> n \<le> 90) \<or> (192 \<le> n \<and> n \<le> 222 \<and> n \<noteq> 215)
         then char_of (n + 32) else c)"

definition toLowerCase :: "string \<Rightarrow> string" where
  "toLowerCase s = map lowerChar s"

text \<open>Does the text \<open>s\<close> begin with the literal \<open>p\<close>?\<close>

fun startsWith :: "string \<Rightarrow> string \<Rightarrow> bool" where
  "startsWith s [] = True"
| "startsWith [] (p # ps) = False"
| "startsWith (c # cs) (p # ps) = (c = p \<and> startsWith cs ps)"

text \<open>
  \<open>/a|b|.../.test(s)\<close> for an alternation of literals: the matcher tries the
  alternatives, in order, at the first position, then at the next one, and so on up to
  and including the end of the text.
\<close>

fun regexTest :: "string list \<Rightarrow> string \<Rightarrow> bool" where
  "regexTest alts [] = list_ex (startsWith []) alts"
| "regexTest alts (c # cs) = (list_ex (startsWith (c # cs)) alts \<or> regexTest alts cs)"

text \<open>\<open>(s.match(/c/g) || []).length\<close> for a one-character pattern: the number of
  occurrences of the character.\<close>

definition countMatches :: "char \<Rightarrow> string \<Rightarrow> nat" where
  "countMatches c s = length (filter (\<lambda>x. x = c) s)"

text \<open>\<open>s.includes(p)\<close>.\<close>

definition includesStr :: "string \<Rightarrow> string \<Rightarrow> bool" where
  "includesStr s p = regexTest [p] s"

subsection \<open>\<open>services/ai.ts\<close>: complexity classifier and model selector\<close>

datatype AIModel = GPT4 | GPT4Turbo | Claude35Sonnet | GeminiPro

datatype Complexity = Simple | Medium | Complex

text \<open>The alternatives of the keyword pattern
  \<open>/analiz|compar|evalua|explicar|detallar|complejo/\<close>, in the order of the source.\<close>

definition keywordPattern :: "string list" where
  "keywordPattern =
     [''analiz'', ''compar'', ''evalua'', ''explicar'', ''detallar'', ''complejo'']"

definition detectComplexity :: "string \<Rightarrow> Complexity" where
  "detectComplexity message =
     (let len = length message;
          hasQuestions = countMatches (CHR ''?'') message;
          hasKeywords = regexTest keywordPattern (toLowerCase message)
      in if len > 200 \<or> hasQuestions > 2 \<or> hasKeywords then Complex
         else if len > 50 \<or> hasQuestions > 0 then Medium
         else Simple)"

definition selectModelForTenant :: "string \<Rightarrow> Complexity \<Rightarrow> AIModel" where
  "selectModelForTenant plan complexity =
     (if plan = ''enterprise'' then
        (if complexity = Complex then Claude35Sonnet else GPT4Turbo)
      else if plan = ''business'' then
        (if complexity = Simple then GeminiPro else GPT4)
      else if plan = ''professional'' then
        (if complexity = Complex then GPT4 else GeminiPro)
      else GeminiPro)"

text \<open>
  The policy table of the specification (section 4.2), written from its words: four
  tiers, one row per plan, the starter row being the default row. The identification of
  tiers with concrete models is the one under which the table is compared with the code.
\<close>

datatype Tier = Economy | Standard | PremiumFast | PremiumDeep

definition policyTable :: "string \<Rightarrow> Complexity \<Rightarrow> Tier" where
  "policyTable plan complexity =
     (if plan = ''enterprise'' then
        (case complexity of Simple \<Rightarrow> PremiumFast | Medium \<Rightarrow> PremiumFast | Complex \<Rightarrow> PremiumDeep)
      else if plan = ''business'' then
        (case complexity of Simple \<Rightarrow> Economy | Medium \<Rightarrow> Standard | Complex \<Rightarrow> Standard)
      else if plan = ''professional'' then
        (case complexity of Simple \<Rightarrow> Economy | Medium \<Rightarrow> Economy | Complex \<Rightarrow> Standard)
      else
        (case complexity of Simple \<Rightarrow> Economy | Medium \<Rightarrow> Economy | Complex \<Rightarrow> Economy))"

fun tierModel :: "Tier \<Rightarrow> AIModel" where
  "tierModel Economy = GeminiPro"
| "tierModel Standard = GPT4"
| "tierModel PremiumFast = GPT4Turbo"
| "tierModel PremiumDeep = Claude35Sonnet"

definition declaredPlans :: "string list" where
  "declaredPlans = [''starter'', ''professional'', ''business'', ''enterprise'']"

subsection \<open>Data model (\<open>prisma/schema.prisma\<close>) and the world a request runs in\<close>

type_synonym ident = string

text \<open>The \<open>limits\<close> JSON object of a tenant: a key may be absent (\<open>undefined\<close> when
  read); the stored numbers are the integers written by the plan tables.\<close>

record Limits =
  lim_conversations :: "int option"
  lim_messages :: "int option"

record Tenant =
  t_id :: ident
  t_name :: string
  t_plan :: string
  t_limits :: Limits
  t_isActive :: bool

record Chatbot =
  cb_id :: ident
  cb_systemPrompt :: string
  cb_isActive :: bool

record Widget =
  wg_id :: ident
  wg_isActive :: bool
  wg_tenantId :: ident
  wg_chatbotId :: ident

record Conversation =
  c_id :: ident
  c_userId :: "string option"
  c_status :: string
  c_tenantId :: ident
  c_widgetId :: "ident option"
  c_chatbotId :: "ident option"
  c_createdAt :: int

text \<open>The column \<open>sender\<close> holds \<open>'USER'\<close> or \<open>'BOT'\<close>, the only values written.\<close>

datatype Sender = USER | BOT

record Message =
  m_id :: ident
  m_content :: string
  m_sender :: Sender
  m_conversationId :: ident
  m_createdAt :: int

datatype Role = RoleUser | RoleAssistant

record Metadata =
  md_userAgent :: "string option"
  md_url :: "string option"
  md_referrer :: "string option"

text \<open>\<open>ChatContext\<close>: every field is optional in the interface.\<close>

record ChatContext =
  conversationHistory :: "(Role \<times> string) list option"
  systemPrompt :: "string option"
  companyInfo :: "string option"
  userInfo :: "Metadata option"

text \<open>\<open>AIResponse\<close>. The \<open>cost\<close> field is a floating-point estimate that nothing
  in this development reads; it is left out.\<close>

record AIResponse =
  content :: string
  model :: AIModel
  tokensUsed :: "nat option"
  responseTime :: int

text \<open>Exceptions: a \<open>ZodError\<close>, or an \<open>Error\<close>/\<open>TypeError\<close> with its message.\<close>

datatype Exn = ZodError | Error string

text \<open>
  The world: the clock read by \<open>Date.now()\<close> and by the \<open>now()\<close> column defaults (in
  milliseconds), a counter for generated ids, the tables (rows in insertion order), and
  the log of adapter invocations made so far (model, message, context).
\<close>

record world =
  now :: int
  idCounter :: nat
  tenants :: "Tenant list"
  chatbots :: "Chatbot list"
  widgets :: "Widget list"
  conversations :: "Conversation list"
  messages :: "Message list"
  calls :: "(AIModel \<times> string \<times> ChatContext) list"

text \<open>
  Library functions the code calls and the repository does not define: zod's
  \<open>uuid\<close> check, the \<open>cuid()\<close> id generator (as a function of the counter), and the
  start of the calendar month of an instant (\<open>setDate(1); setHours(0,0,0,0)\<close>).
\<close>

record platform =
  isUuid :: "string \<Rightarrow> bool"
  cuid :: "nat \<Rightarrow> ident"
  startOfMonth :: "int \<Rightarrow> int"

subsection \<open>Providers and adapters (\<open>services/ai.ts\<close>)\<close>

text \<open>
  What a remote provider does is not the program's choice: a provider is a function
  from the number of adapter invocations made so far, the model and the request to what
  happens on that invocation: the reply (\<open>None\<close>: the call throws, whatever the cause:
  timeout, quota, authentication) and the time the call takes.

  An adapter translates message and context into its provider's request, makes one
  remote call and normalises the reply. The request formats are not modelled: the
  provider is given the model, the message and the context, and each invocation is
  logged with them and advances the clock by the time it takes.
\<close>

record ProviderReply =
  replyText :: "string option"
  replyTokens :: "nat option"

record Attempt =
  outcome :: "ProviderReply option"
  duration :: nat

type_synonym provider = "nat \<Rightarrow> AIModel \<Rightarrow> string \<Rightarrow> ChatContext \<Rightarrow> Attempt"

definition invokeProvider ::
  "provider \<Rightarrow> AIModel \<Rightarrow> string \<Rightarrow> ChatContext \<Rightarrow> world \<Rightarrow> ProviderReply option \<times> world" where
  "invokeProvider prov mdl message context w =
     (let a = prov (length (calls w)) mdl message context
      in (outcome a,
          w\<lparr>now := now w + int (duration a),
            calls := calls w @ [(mdl, message, context)]\<rparr>))"

definition textOrEmpty :: "ProviderReply \<Rightarrow> string" where
  "textOrEmpty r = (case replyText r of Some t \<Rightarrow> t | None \<Rightarrow> [])"

text \<open>\<open>generateOpenAIResponse\<close>: \<open>model\<close> is the parameter, \<open>tokensUsed\<close> is
  \<open>usage?.total_tokens\<close>.\<close>

definition generateOpenAIResponse ::
  "provider \<Rightarrow> string \<Rightarrow> ChatContext \<Rightarrow> AIModel \<Rightarrow> world \<Rightarrow> (Exn + AIResponse) \<times> world" where
  "generateOpenAIResponse prov message context mdl w =
     (case invokeProvider prov mdl message context w of
        (None, w') \<Rightarrow> (Inl (Error ''openai''), w')
      | (Some r, w') \<Rightarrow>
          (Inr \<lparr>content = textOrEmpty r, model = mdl, tokensUsed = replyTokens r,
                responseTime = 0\<rparr>, w'))"

text \<open>\<open>generateClaudeResponse\<close>: \<open>response.usage\<close> is read without a guard, so a
  reply without usage figures throws.\<close>

definition generateClaudeResponse ::
  "provider \<Rightarrow> string \<Rightarrow> ChatContext \<Rightarrow> world \<Rightarrow> (Exn + AIResponse) \<times> world" where
  "generateClaudeResponse prov message context w =
     (case invokeProvider prov Claude35Sonnet message context w of
        (None, w') \<Rightarrow> (Inl (Error ''anthropic''), w')
      | (Some r, w') \<Rightarrow>
          (case replyTokens r of
             None \<Rightarrow> (Inl (Error ''TypeError''), w')
           | Some n \<Rightarrow>
               (Inr \<lparr>content = textOrEmpty r, model = Claude35Sonnet, tokensUsed = Some n,
                     responseTime = 0\<rparr>, w')))"

text \<open>\<open>generateGeminiResponse\<close>: no token count is reported.\<close>

definition generateGeminiResponse ::
  "provider \<Rightarrow> string \<Rightarrow> ChatContext \<Rightarrow> world \<Rightarrow> (Exn + AIResponse) \<times> world" where
  "generateGeminiResponse prov message context w =
     (case invokeProvider prov GeminiPro message context w of
        (None, w') \<Rightarrow> (Inl (Error ''gemini''), w')
      | (Some r, w') \<Rightarrow>
          (Inr \<lparr>content = textOrEmpty r, model = GeminiPro, tokensUsed = Some 0,
                responseTime = 0\<rparr>, w'))"

text \<open>The \<open>switch (model)\<close> of \<open>generateResponse\<close>. Its \<open>default\<close> branch is
  unreachable for a value of type \<open>AIModel\<close>.\<close>

definition dispatch ::
  "provider \<Rightarrow> string \<Rightarrow> ChatContext \<Rightarrow> AIModel \<Rightarrow> world \<Rightarrow> (Exn + AIResponse) \<times> world" where
  "dispatch prov message context mdl w =
     (case mdl of
        GPT4 \<Rightarrow> generateOpenAIResponse prov message context mdl w
      | GPT4Turbo \<Rightarrow> generateOpenAIResponse prov message context mdl w
      | Claude35Sonnet \<Rightarrow> generateClaudeResponse prov message context w
      | GeminiPro \<Rightarrow> generateGeminiResponse prov message context w)"

text \<open>
  \<open>generateResponse\<close>: \<open>startTime\<close> is read on entry of each invocation, also of the
  recursive one that falls back to \<open>gpt-4\<close>.
\<close>

function generateResponse ::
  "provider \<Rightarrow> string \<Rightarrow> ChatContext \<Rightarrow> AIModel \<Rightarrow> world \<Rightarrow> (Exn + AIResponse) \<times> world" where
  "generateResponse prov message context mdl w =
     (let startTime = now w
      in case dispatch prov message context mdl w of
           (Inr response, w') \<Rightarrow> (Inr (response\<lparr>responseTime := now w' - startTime\<rparr>), w')
         | (Inl err, w') \<Rightarrow>
             if mdl \<noteq> GPT4 then generateResponse prov message context GPT4 w'
             else (Inl (Error ''Error al generar respuesta con IA''), w'))"
  by pat_completeness auto
termination
  by (relation "measure (\<lambda>(prov, message, context, mdl, w). if mdl = GPT4 then 0 else 1)") auto

declare generateResponse.simps [simp del]

subsection \<open>Persistence (\<open>services/database.ts\<close> and the Prisma calls of the route)\<close>

definition findTenant :: "ident \<Rightarrow> world \<Rightarrow> Tenant option" where
  "findTenant k w = find (\<lambda>t. t_id t = k) (tenants w)"

definition findChatbot :: "ident \<Rightarrow> world \<Rightarrow> Chatbot option" where
  "findChatbot k w = find (\<lambda>b. cb_id b = k) (chatbots w)"

definition findWidget :: "ident \<Rightarrow> world \<Rightarrow> Widget option" where
  "findWidget k w = find (\<lambda>g. wg_id g = k) (widgets w)"

definition findConversation :: "ident \<Rightarrow> world \<Rightarrow> Conversation option" where
  "findConversation k w = find (\<lambda>c. c_id c = k) (conversations w)"

text \<open>The messages of a conversation, oldest first (\<open>createdAt\<close> ascending; rows with
  equal timestamps stay in insertion order).\<close>

definition chronological :: "ident \<Rightarrow> world \<Rightarrow> Message list" where
  "chronological k w = sort_key m_createdAt (filter (\<lambda>m. m_conversationId m = k) (messages w))"

text \<open>\<open>include: { messages: { orderBy: { createdAt: 'desc' }, take: n } }\<close>.\<close>

definition recentMessages :: "nat \<Rightarrow> ident \<Rightarrow> world \<Rightarrow> Message list" where
  "recentMessages n k w = take n (rev (chronological k w))"

definition createConversation ::
  "platform \<Rightarrow> ident \<Rightarrow> ident \<Rightarrow> ident \<Rightarrow> string \<Rightarrow> world \<Rightarrow> Conversation \<times> world" where
  "createConversation P tenantId widgetId chatbotId userId w =
     (let c = \<lparr>c_id = cuid P (idCounter w), c_userId = Some userId, c_status = ''ACTIVE'',
               c_tenantId = tenantId, c_widgetId = Some widgetId,
               c_chatbotId = Some chatbotId, c_createdAt = now w\<rparr>
      in (c, w\<lparr>idCounter := Suc (idCounter w), conversations := conversations w @ [c]\<rparr>))"

definition createMessage ::
  "platform \<Rightarrow> ident \<Rightarrow> string \<Rightarrow> Sender \<Rightarrow> world \<Rightarrow> Message \<times> world" where
  "createMessage P conversationId text sender w =
     (let m = \<lparr>m_id = cuid P (idCounter w), m_content = text, m_sender = sender,
               m_conversationId = conversationId, m_createdAt = now w\<rparr>
      in (m, w\<lparr>idCounter := Suc (idCounter w), messages := messages w @ [m]\<rparr>))"

record LimitStatus =
  used :: nat
  limit :: int
  exceeded :: bool

record TenantLimits =
  conversationsStatus :: LimitStatus
  messagesStatus :: LimitStatus

text \<open>\<open>x || 0\<close> and \<open>x > 0 && count >= x\<close> on a number that may be \<open>undefined\<close>.\<close>

definition orZero :: "int option \<Rightarrow> int" where
  "orZero x = (case x of None \<Rightarrow> 0 | Some l \<Rightarrow> if l = 0 then 0 else l)"

definition isExceeded :: "int option \<Rightarrow> nat \<Rightarrow> bool" where
  "isExceeded x count = (case x of None \<Rightarrow> False | Some l \<Rightarrow> l > 0 \<and> int count \<ge> l)"

definition conversationCount :: "platform \<Rightarrow> ident \<Rightarrow> world \<Rightarrow> nat" where
  "conversationCount P tenantId w =
     length (filter (\<lambda>c. c_tenantId c = tenantId \<and> c_createdAt c \<ge> startOfMonth P (now w))
               (conversations w))"

definition messageCount :: "platform \<Rightarrow> ident \<Rightarrow> world \<Rightarrow> nat" where
  "messageCount P tenantId w =
     length (filter (\<lambda>m. (case findConversation (m_conversationId m) w of
                             None \<Rightarrow> False | Some c \<Rightarrow> c_tenantId c = tenantId)
                          \<and> m_createdAt m \<ge> startOfMonth P (now w))
               (messages w))"

definition checkTenantLimits :: "platform \<Rightarrow> ident \<Rightarrow> world \<Rightarrow> Exn + TenantLimits" where
  "checkTenantLimits P tenantId w =
     (case findTenant tenantId w of
        None \<Rightarrow> Inl (Error ''Tenant no encontrado'')
      | Some tenant \<Rightarrow>
          (let limits = t_limits tenant;
               nc = conversationCount P tenantId w;
               nm = messageCount P tenantId w
           in Inr \<lparr>conversationsStatus =
                     \<lparr>used = nc, limit = orZero (lim_conversations limits),
                      exceeded = isExceeded (lim_conversations limits) nc\<rparr>,
                   messagesStatus =
                     \<lparr>used = nm, limit = orZero (lim_messages limits),
                      exceeded = isExceeded (lim_messages limits) nm\<rparr>\<rparr>))"

subsection \<open>Requests, responses and the middleware (\<open>middleware/auth.ts\<close>)\<close>

text \<open>The JSON body of \<open>POST /message\<close>, with the required string fields present (an
  absent \<open>widgetId\<close> reads as the empty string).\<close>

record request =
  message :: string
  conversationId :: "string option"
  widgetId :: string
  userId :: "string option"
  metadata :: "Metadata option"

text \<open>Response bodies, named after what the source sends.\<close>

datatype Payload =
    TooManyMessages
  | WidgetIdRequired
  | WidgetNotFound
  | WidgetDisabled
  | AccountSuspended
  | InternalError
  | LimitCheckError
  | LimitReached string nat int
  | InvalidData
  | WidgetNotFoundOrInactive
  | ChatbotUnavailable
  | ConversationNotFound
  | UsageLimitReached string
  | ProcessingError
  | TurnResult ident ident string AIModel int "nat option"

type_synonym response = "nat \<times> Payload"

datatype LimitType = ConversationsLimit | MessagesLimit | AgentsLimit

fun limitTypeName :: "LimitType \<Rightarrow> string" where
  "limitTypeName ConversationsLimit = ''conversations''"
| "limitTypeName MessagesLimit = ''messages''"
| "limitTypeName AgentsLimit = ''agents''"

text \<open>\<open>validateWidgetAccess\<close>: a response, or the tenant id it stores in the request.
  Reading \<open>widget.tenant.isActive\<close> of a missing tenant throws, which the middleware
  answers with 500.\<close>

definition validateWidgetAccess :: "request \<Rightarrow> world \<Rightarrow> response + ident" where
  "validateWidgetAccess req w =
     (if widgetId req = [] then Inl (400, WidgetIdRequired)
      else case findWidget (widgetId req) w of
             None \<Rightarrow> Inl (404, WidgetNotFound)
           | Some widget \<Rightarrow>
               if \<not> wg_isActive widget then Inl (403, WidgetDisabled)
               else (case findTenant (wg_tenantId widget) w of
                       None \<Rightarrow> Inl (500, InternalError)
                     | Some tenant \<Rightarrow>
                         if \<not> t_isActive tenant then Inl (403, AccountSuspended)
                         else Inr (t_id tenant)))"

text \<open>\<open>limits[limitType]\<close>: the object returned by \<open>checkTenantLimits\<close> has no
  \<open>agents\<close> key.\<close>

fun selectLimit :: "LimitType \<Rightarrow> TenantLimits \<Rightarrow> LimitStatus option" where
  "selectLimit ConversationsLimit l = Some (conversationsStatus l)"
| "selectLimit MessagesLimit l = Some (messagesStatus l)"
| "selectLimit AgentsLimit l = None"

text \<open>\<open>checkUsageLimits(limitType)\<close>: \<open>Some\<close> response when the middleware answers
  itself, \<open>None\<close> when it calls \<open>next()\<close>.\<close>

definition checkUsageLimits :: "platform \<Rightarrow> LimitType \<Rightarrow> ident \<Rightarrow> world \<Rightarrow> response option" where
  "checkUsageLimits P limitType tenantId w =
     (case checkTenantLimits P tenantId w of
        Inl err \<Rightarrow> Some (500, LimitCheckError)
      | Inr limits \<Rightarrow>
          (case selectLimit limitType limits of
             None \<Rightarrow> None
           | Some l \<Rightarrow>
               if exceeded l then Some (429, LimitReached (limitTypeName limitType) (used l) (limit l))
               else None))"

subsection \<open>The chat route: \<open>POST /message\<close>\<close>

text \<open>\<open>chatMessageSchema.parse\<close>: the message has 1 to 1000 code units, the widget id
  and, when present, the conversation id are UUIDs; \<open>userId\<close> and \<open>metadata\<close> are
  unconstrained.\<close>

definition chatMessageSchema :: "platform \<Rightarrow> request \<Rightarrow> bool" where
  "chatMessageSchema P req =
     (1 \<le> length (message req) \<and> length (message req) \<le> 1000
      \<and> (case conversationId req of None \<Rightarrow> True | Some k \<Rightarrow> isUuid P k)
      \<and> isUuid P (widgetId req))"

text \<open>Decimal digits of a number, for the template \<open>anonymous_${Date.now()}\<close>.\<close>

function showNat :: "nat \<Rightarrow> string" where
  "showNat n = (if n < 10 then [char_of (48 + n)]
                else showNat (n div 10) @ [char_of (48 + n mod 10)])"
  by pat_completeness auto
termination
  by (relation "measure id") auto

declare showNat.simps [simp del]

definition showInt :: "int \<Rightarrow> string" where
  "showInt i = (if i < 0 then ''-'' @ showNat (nat (- i)) else showNat (nat i))"

text \<open>\<open>validatedData.userId || `anonymous_${Date.now()}`\<close>: an empty string is falsy.\<close>

definition userIdOrAnonymous :: "request \<Rightarrow> world \<Rightarrow> string" where
  "userIdOrAnonymous req w =
     (case userId req of
        Some u \<Rightarrow> if u \<noteq> [] then u else ''anonymous_'' @ showInt (now w)
      | None \<Rightarrow> ''anonymous_'' @ showInt (now w))"

text \<open>The word the catch handler looks for in an error message: \<open>limite\<close> written
  with an accented \<open>i\<close>, the code unit 237.\<close>

definition limiteWord :: string where
  "limiteWord = ''l'' @ [CHR 0xED] @ ''mite''"

text \<open>The \<open>catch\<close> block of the handler.\<close>

definition catchHandler :: "Exn \<Rightarrow> response" where
  "catchHandler e =
     (case e of
        ZodError \<Rightarrow> (400, InvalidData)
      | Error msg \<Rightarrow>
          if includesStr msg limiteWord then (429, UsageLimitReached msg)
          else (500, ProcessingError))"

text \<open>
  Conversation resolution (\<open>Buscar o crear conversacion\<close>): a supplied, non-empty id
  must name a conversation of the widget's tenant, otherwise the handler answers 404
  before it writes anything; without an id a conversation is created. Both queries
  include the ten most recent messages, newest first.
\<close>

definition resolveConversation ::
  "platform \<Rightarrow> request \<Rightarrow> Widget \<Rightarrow> Chatbot \<Rightarrow> world
     \<Rightarrow> response + ((Conversation \<times> Message list) \<times> world)" where
  "resolveConversation P req widget chatbot w =
     (case (case conversationId req of
              None \<Rightarrow> None
            | Some k \<Rightarrow> if k \<noteq> [] then Some k else None) of
        Some k \<Rightarrow>
          (case findConversation k w of
             None \<Rightarrow> Inl (404, ConversationNotFound)
           | Some conversation \<Rightarrow>
               if c_tenantId conversation \<noteq> wg_tenantId widget
               then Inl (404, ConversationNotFound)
               else Inr ((conversation, recentMessages 10 k w), w))
      | None \<Rightarrow>
          (let (conversation, w') =
                 createConversation P (wg_tenantId widget) (wg_id widget) (cb_id chatbot)
                   (userIdOrAnonymous req w) w
           in Inr ((conversation, recentMessages 10 (c_id conversation) w'), w')))"

text \<open>\<open>conversation.messages.reverse().map(...)\<close>.\<close>

definition toRole :: "Sender \<Rightarrow> Role" where
  "toRole s = (if s = USER then RoleUser else RoleAssistant)"

definition assembleHistory :: "Message list \<Rightarrow> (Role \<times> string) list" where
  "assembleHistory fetched = map (\<lambda>msg. (toRole (m_sender msg), m_content msg)) (rev fetched)"

definition buildContext :: "request \<Rightarrow> Chatbot \<Rightarrow> Tenant \<Rightarrow> Message list \<Rightarrow> ChatContext" where
  "buildContext req chatbot tenant fetched =
     \<lparr>conversationHistory = Some (assembleHistory fetched),
      systemPrompt = Some (cb_systemPrompt chatbot),
      companyInfo = Some (''Empresa: '' @ t_name tenant),
      userInfo = metadata req\<rparr>"

text \<open>
  The rest of the handler, from \<open>Guardar mensaje del usuario\<close> on. The tenant was
  loaded with the widget; reading \<open>widget.tenant.name\<close> of a missing one throws a
  \<open>TypeError\<close> after the user message is stored.
\<close>

definition completeTurn ::
  "platform \<Rightarrow> provider \<Rightarrow> request \<Rightarrow> Chatbot \<Rightarrow> Tenant option \<Rightarrow> Conversation
     \<Rightarrow> Message list \<Rightarrow> world \<Rightarrow> response \<times> world" where
  "completeTurn P prov req chatbot tenantOpt conversation fetched w =
     (let (userMessage, w1) = createMessage P (c_id conversation) (message req) USER w
      in case tenantOpt of
           None \<Rightarrow> (catchHandler (Error ''TypeError''), w1)
         | Some tenant \<Rightarrow>
             (let context = buildContext req chatbot tenant fetched;
                  complexity = detectComplexity (message req);
                  mdl = selectModelForTenant (t_plan tenant) complexity
              in case generateResponse prov (message req) context mdl w1 of
                   (Inl err, w2) \<Rightarrow> (catchHandler err, w2)
                 | (Inr aiResponse, w2) \<Rightarrow>
                     (let (botMessage, w3) =
                            createMessage P (c_id conversation) (content aiResponse) BOT w2
                      in ((200, TurnResult (c_id conversation) (m_id botMessage)
                                  (content aiResponse) (model aiResponse)
                                  (responseTime aiResponse) (tokensUsed aiResponse)), w3))))"

definition postMessage :: "platform \<Rightarrow> provider \<Rightarrow> request \<Rightarrow> world \<Rightarrow> response \<times> world" where
  "postMessage P prov req w =
     (if \<not> chatMessageSchema P req then (catchHandler ZodError, w)
      else case findWidget (widgetId req) w of
             None \<Rightarrow> ((404, WidgetNotFoundOrInactive), w)
           | Some widget \<Rightarrow>
               if \<not> wg_isActive widget then ((404, WidgetNotFoundOrInactive), w)
               else (case findChatbot (wg_chatbotId widget) w of
                       None \<Rightarrow> ((503, ChatbotUnavailable), w)
                     | Some chatbot \<Rightarrow>
                         if \<not> cb_isActive chatbot then ((503, ChatbotUnavailable), w)
                         else (case resolveConversation P req widget chatbot w of
                                 Inl r \<Rightarrow> (r, w)
                               | Inr ((conversation, fetched), w0) \<Rightarrow>
                                   completeTurn P prov req chatbot
                                     (findTenant (wg_tenantId widget) w)
                                     conversation fetched w0)))"

text \<open>
  The route with its middleware chain: \<open>tenantCors\<close>, \<open>chatLimiter\<close>,
  \<open>validateWidgetAccess\<close>, \<open>checkUsageLimits('conversations')\<close>, then the handler.
  \<open>tenantCors\<close> only sets response headers on a POST and is left out. \<open>chatLimiter\<close>
  is the rate limiter of a library (30 requests per minute and address): whether it
  stops the request is an input, \<open>limited\<close>; when it does, it answers 429 with its own
  message.
\<close>

definition chatMessageRoute ::
  "platform \<Rightarrow> provider \<Rightarrow> bool \<Rightarrow> request \<Rightarrow> world \<Rightarrow> response \<times> world" where
  "chatMessageRoute P prov limited req w =
     (if limited then ((429, TooManyMessages), w)
      else case validateWidgetAccess req w of
             Inl r \<Rightarrow> (r, w)
           | Inr tenantId \<Rightarrow>
               (case checkUsageLimits P ConversationsLimit tenantId w of
                  Some r \<Rightarrow> (r, w)
                | None \<Rightarrow> postMessage P prov req w))"

subsection \<open>Sample data\<close>

text \<open>A provider whose first invocation fails after 100 ms and whose later ones answer
  after 50 ms, one that always fails, and one that always answers.\<close>

definition okReply :: ProviderReply where
  "okReply = \<lparr>replyText = Some ''ok'', replyTokens = Some 5\<rparr>"

definition failThenOk :: provider where
  "failThenOk i mdl msg ctx =
     (if i = 0 then \<lparr>outcome = None, duration = 100\<rparr>
      else \<lparr>outcome = Some okReply, duration = 50\<rparr>)"

definition alwaysFail :: provider where
  "alwaysFail i mdl msg ctx = \<lparr>outcome = None, duration = 30\<rparr>"

definition alwaysOk :: provider where
  "alwaysOk i mdl msg ctx = \<lparr>outcome = Some okReply, duration = 50\<rparr>"

definition emptyContext :: ChatContext where
  "emptyContext =
     \<lparr>conversationHistory = None, systemPrompt = None, companyInfo = None, userInfo = None\<rparr>"

definition emptyWorld :: world where
  "emptyWorld = \<lparr>now = 1000, idCounter = 0, tenants = [], chatbots = [], widgets = [],
                 conversations = [], messages = [], calls = []\<rparr>"

text \<open>
  A platform for the samples, and a world with two tenants. Tenant \<open>t1\<close> (starter) owns
  the widget and a conversation of two messages; its messages limit, 2, is reached and
  its conversations limit, 500, is not. Tenant \<open>t2\<close> owns the other conversation; its
  conversations limit, 1, is reached.
\<close>

definition demoPlatform :: platform where
  "demoPlatform =
     \<lparr>isUuid = (\<lambda>s. length s = 36), cuid = (\<lambda>n. ''c'' @ showNat n),
      startOfMonth = (\<lambda>t. t - t mod 2592000000)\<rparr>"

definition widgetUuid :: ident where
  "widgetUuid = ''11111111-1111-4111-8111-111111111111''"

definition widget2Uuid :: ident where
  "widget2Uuid = ''55555555-5555-4555-8555-555555555555''"

definition ownUuid :: ident where
  "ownUuid = ''22222222-2222-4222-8222-222222222222''"

definition foreignUuid :: ident where
  "foreignUuid = ''33333333-3333-4333-8333-333333333333''"

definition demoTenant :: Tenant where
  "demoTenant =
     \<lparr>t_id = ''t1'', t_name = ''Acme'', t_plan = ''starter'',
      t_limits = \<lparr>lim_conversations = Some 500, lim_messages = Some 2\<rparr>, t_isActive = True\<rparr>"

definition otherTenant :: Tenant where
  "otherTenant =
     \<lparr>t_id = ''t2'', t_name = ''Other'', t_plan = ''business'',
      t_limits = \<lparr>lim_conversations = Some 1, lim_messages = Some (- 1)\<rparr>, t_isActive = True\<rparr>"

definition demoChatbot :: Chatbot where
  "demoChatbot = \<lparr>cb_id = ''b1'', cb_systemPrompt = ''You are the support bot'', cb_isActive = True\<rparr>"

definition demoWidget :: Widget where
  "demoWidget =
     \<lparr>wg_id = widgetUuid, wg_isActive = True, wg_tenantId = ''t1'', wg_chatbotId = ''b1''\<rparr>"

definition otherWidget :: Widget where
  "otherWidget =
     \<lparr>wg_id = widget2Uuid, wg_isActive = True, wg_tenantId = ''t2'', wg_chatbotId = ''b1''\<rparr>"

definition demoConversation :: Conversation where
  "demoConversation =
     \<lparr>c_id = ownUuid, c_userId = Some ''u1'', c_status = ''ACTIVE'', c_tenantId = ''t1'',
      c_widgetId = Some widgetUuid, c_chatbotId = Some ''b1'', c_createdAt = 4999990000\<rparr>"

definition foreignConversation :: Conversation where
  "foreignConversation =
     \<lparr>c_id = foreignUuid, c_userId = Some ''u2'', c_status = ''ACTIVE'', c_tenantId = ''t2'',
      c_widgetId = None, c_chatbotId = None, c_createdAt = 4999980000\<rparr>"

definition demoMessage1 :: Message where
  "demoMessage1 =
     \<lparr>m_id = ''m1'', m_content = ''Hola'', m_sender = USER, m_conversationId = ownUuid,
      m_createdAt = 4999990001\<rparr>"

definition demoMessage2 :: Message where
  "demoMessage2 =
     \<lparr>m_id = ''m2'', m_content = ''Buenas'', m_sender = BOT, m_conversationId = ownUuid,
      m_createdAt = 4999990002\<rparr>"

definition demoWorld :: world where
  "demoWorld =
     \<lparr>now = 5000000000, idCounter = 10, tenants = [demoTenant, otherTenant],
      chatbots = [demoChatbot], widgets = [demoWidget, otherWidget],
      conversations = [foreignConversation, demoConversation],
      messages = [demoMessage1, demoMessage2], calls = []\<rparr>"

text \<open>Requests to the widget of \<open>t1\<close> that continue its own conversation and that
  name the conversation of \<open>t2\<close>; a request to the widget of \<open>t2\<close> that continues the
  conversation of \<open>t2\<close>; the user message the first one stores, and the world then.\<close>

definition continueRequest :: request where
  "continueRequest =
     \<lparr>message = ''Hola?'', conversationId = Some ownUuid, widgetId = widgetUuid,
      userId = None, metadata = None\<rparr>"

definition foreignRequest :: request where
  "foreignRequest =
     \<lparr>message = ''Hola?'', conversationId = Some foreignUuid, widgetId = widgetUuid,
      userId = None, metadata = None\<rparr>"

definition otherRequest :: request where
  "otherRequest =
     \<lparr>message = ''Hola?'', conversationId = Some foreignUuid, widgetId = widget2Uuid,
      userId = None, metadata = None\<rparr>"

definition demoUserMessage :: Message where
  "demoUserMessage =
     \<lparr>m_id = ''c10'', m_content = ''Hola?'', m_sender = USER, m_conversationId = ownUuid,
      m_createdAt = 5000000000\<rparr>"

definition demoWorld1 :: world where
  "demoWorld1 = demoWorld\<lparr>idCounter := 11, messages := [demoMessage1, demoMessage2, demoUserMessage]\<rparr>"

text \<open>
  A world in which the conversation of \<open>t1\<close> holds twelve messages (numbers 1 to 6 and
  8 to 13) and the conversation of \<open>t2\<close> two (numbers 7 and 14), stored in the order
  of their numbers; odd numbers are user messages.
\<close>

definition sampleMessage :: "ident \<Rightarrow> nat \<Rightarrow> Message" where
  "sampleMessage k i =
     \<lparr>m_id = ''m'' @ showNat i, m_content = ''q'' @ showNat i,
      m_sender = (if odd i then USER else BOT), m_conversationId = k,
      m_createdAt = 4999990000 + int i\<rparr>"

definition busyWorld :: world where
  "busyWorld =
     demoWorld\<lparr>messages :=
       map (sampleMessage ownUuid) [1..<7] @ [sampleMessage foreignUuid 7]
       @ map (sampleMessage ownUuid) [8..<14] @ [sampleMessage foreignUuid 14]\<rparr>"

section \<open>Properties\<close>

subsection \<open>Strings\<close>

lemma startsWith_prefix: "startsWith s p = prefix p s"
  by (induction s p rule: startsWith.induct) auto

lemma regexTest_sublist: "regexTest alts s = (\<exists>p \<in> set alts. sublist p s)"
  by (induction s) (auto simp: list_ex_iff startsWith_prefix sublist_Cons_right)

lemma countMatches_count_list: "countMatches c s = count_list s c"
  by (induction s) (auto simp: countMatches_def)

lemma count_list_pos: "(0 < count_list s c) = (c \<in> set s)"
  by (induction s) auto

lemma sublist_trans: "sublist a b \<Longrightarrow> sublist b c \<Longrightarrow> sublist a c"
  using sublist_order.order.trans by blast

subsection \<open>Model selector\<close>

text \<open>
  C3. For every plan and every complexity, \<open>selectModelForTenant\<close> returns the model
  of the policy table of section 4.2 under the identification economy = gemini-pro,
  standard = gpt-4, premium-fast = gpt-4-turbo, premium-deep = claude-3.5-sonnet; the
  function is total (it has no failing branch), and for a plan string outside the four
  declared plans it returns gemini-pro, the model of the whole starter row.
\<close>

theorem selectModelForTenant_policy:
  "selectModelForTenant plan complexity = tierModel (policyTable plan complexity)
   \<and> (plan \<notin> set declaredPlans \<longrightarrow> selectModelForTenant plan complexity = GeminiPro)
   \<and> selectModelForTenant ''starter'' complexity = GeminiPro"
  by (cases complexity) (simp_all add: selectModelForTenant_def policyTable_def declaredPlans_def)

theorem selectModelForTenant_policy_witness:
  "selectModelForTenant ''trial'' Complex = tierModel (policyTable ''trial'' Complex)
   \<and> ''trial'' \<notin> set declaredPlans \<and> selectModelForTenant ''trial'' Complex = GeminiPro"
  using selectModelForTenant_policy [of "''trial''" Complex]
  by (simp add: declaredPlans_def policyTable_def)

subsection \<open>Complexity classifier\<close>

text \<open>
  C4, as stated, fails when the keywords are those the specification lists
  (\<open>analyze\<close>, \<open>compare\<close>, \<open>evaluate\<close>, \<open>explain in detail\<close>, \<open>complex\<close>): the
  message \<open>analizar\<close> contains none of them, has 8 characters and no question mark,
  and is classified complex, not simple, because it contains the stem \<open>analiz\<close> of the
  classifier's pattern.
\<close>

theorem detectComplexity_rules_counterexample:
  "\<not> sublist ''analyze'' (toLowerCase ''analizar'')
   \<and> \<not> sublist ''compare'' (toLowerCase ''analizar'')
   \<and> \<not> sublist ''evaluate'' (toLowerCase ''analizar'')
   \<and> \<not> sublist ''explain in detail'' (toLowerCase ''analizar'')
   \<and> \<not> sublist ''complex'' (toLowerCase ''analizar'')
   \<and> length ''analizar'' = 8
   \<and> count_list ''analizar'' (CHR ''?'') = 0
   \<and> detectComplexity ''analizar'' = Complex"
  by code_simp

text \<open>
  C4, amended. \<open>detectComplexity\<close> is a function of the message alone, defined on every
  message. For a message whose lower-cased text contains none of the stems of the
  classifier's pattern (\<open>analiz\<close>, \<open>compar\<close>, \<open>evalua\<close>, \<open>explicar\<close>, \<open>detallar\<close>,
  \<open>complejo\<close>), the result is complex if the message has more than 200 characters or
  more than two question marks, otherwise medium if it has more than 50 characters or at
  least one question mark, otherwise simple. The empty message is simple.
\<close>

theorem detectComplexity_rules:
  "(\<not> (\<exists>k \<in> set keywordPattern. sublist k (toLowerCase msg)) \<longrightarrow>
      detectComplexity msg =
        (if length msg > 200 \<or> count_list msg (CHR ''?'') > 2 then Complex
         else if length msg > 50 \<or> CHR ''?'' \<in> set msg then Medium
         else Simple))
   \<and> detectComplexity [] = Simple"
proof -
  have empty: "detectComplexity [] = Simple"
    by (simp add: detectComplexity_def countMatches_def toLowerCase_def keywordPattern_def)
  show ?thesis
    using empty
    by (simp add: detectComplexity_def Let_def regexTest_sublist countMatches_count_list
        count_list_pos)
qed

theorem detectComplexity_rules_witness:
  "\<not> (\<exists>k \<in> set keywordPattern. sublist k (toLowerCase ''Hola?''))
   \<and> detectComplexity ''Hola?'' = Medium \<and> detectComplexity [] = Simple"
proof -
  have h: "\<not> (\<exists>k \<in> set keywordPattern. sublist k (toLowerCase ''Hola?''))"
    by code_simp
  show ?thesis using h detectComplexity_rules [of "''Hola?''"] by simp
qed

text \<open>
  C8, as stated, fails: the message \<open>Analyze\<close> contains the keyword \<open>analyze\<close> of
  the specification's list, case-insensitively, and is classified simple. The pattern of
  the classifier holds Spanish stems, and \<open>analyze\<close>, \<open>explain in detail\<close> and
  \<open>complex\<close> contain none of them.
\<close>

theorem detectComplexity_keyword_counterexample:
  "sublist ''analyze'' (toLowerCase ''Analyze'') \<and> detectComplexity ''Analyze'' = Simple"
  by code_simp

text \<open>
  C8, amended. Every message whose lower-cased text contains one of the stems
  \<open>analiz\<close>, \<open>compar\<close>, \<open>evalua\<close>, \<open>explicar\<close>, \<open>detallar\<close>, \<open>complejo\<close> is
  classified complex, whatever its length and its number of question marks; this covers
  the keywords \<open>compare\<close> and \<open>evaluate\<close> of the specification's list.
\<close>

theorem detectComplexity_keyword:
  "(\<exists>k \<in> set keywordPattern. sublist k (toLowerCase msg))
     \<or> sublist ''compare'' (toLowerCase msg)
     \<or> sublist ''evaluate'' (toLowerCase msg)
   \<Longrightarrow> detectComplexity msg = Complex"
proof -
  assume h: "(\<exists>k \<in> set keywordPattern. sublist k (toLowerCase msg))
     \<or> sublist ''compare'' (toLowerCase msg)
     \<or> sublist ''evaluate'' (toLowerCase msg)"
  have c: "sublist ''compar'' ''compare''"
    using sublist_append_rightI [of "''compar''" "''e''"] by simp
  have e: "sublist ''evalua'' ''evaluate''"
    using sublist_append_rightI [of "''evalua''" "''te''"] by simp
  have "\<exists>k \<in> set keywordPattern. sublist k (toLowerCase msg)"
    using h
  proof (elim disjE)
    assume "sublist ''compare'' (toLowerCase msg)"
    then have "sublist ''compar'' (toLowerCase msg)" using c sublist_trans by blast
    then show ?thesis by (simp add: keywordPattern_def)
  next
    assume "sublist ''evaluate'' (toLowerCase msg)"
    then have "sublist ''evalua'' (toLowerCase msg)" using e sublist_trans by blast
    then show ?thesis by (simp add: keywordPattern_def)
  qed
  then show ?thesis
    by (simp add: detectComplexity_def Let_def regexTest_sublist)
qed

theorem detectComplexity_keyword_witness:
  "sublist ''compare'' (toLowerCase ''Compare A?'') \<and> detectComplexity ''Compare A?'' = Complex"
proof -
  have h: "sublist ''compare'' (toLowerCase ''Compare A?'')"
    by code_simp
  show ?thesis using h detectComplexity_keyword [of "''Compare A?''"] by simp
qed

subsection \<open>Provider calls of \<open>generateResponse\<close>\<close>

lemma invokeProvider_world:
  "snd (invokeProvider prov mdl msg ctx w) =
     w\<lparr>now := now w + int (duration (prov (length (calls w)) mdl msg ctx)),
       calls := calls w @ [(mdl, msg, ctx)]\<rparr>"
  by (simp add: invokeProvider_def Let_def)

lemma dispatch_world:
  "snd (dispatch prov msg ctx mdl w) =
     w\<lparr>now := now w + int (duration (prov (length (calls w)) mdl msg ctx)),
       calls := calls w @ [(mdl, msg, ctx)]\<rparr>"
  by (cases mdl)
    (simp_all add: dispatch_def generateOpenAIResponse_def generateClaudeResponse_def
      generateGeminiResponse_def invokeProvider_def Let_def split: option.splits)

lemma dispatch_model:
  "dispatch prov msg ctx mdl w = (Inr a, w1) \<Longrightarrow> model a = mdl \<and> responseTime a = 0"
  by (cases mdl)
    (auto simp: dispatch_def generateOpenAIResponse_def generateClaudeResponse_def
      generateGeminiResponse_def split: option.splits prod.splits)

lemma generateResponse_ok:
  "dispatch prov msg ctx mdl w = (Inr a, w1) \<Longrightarrow>
     generateResponse prov msg ctx mdl w = (Inr (a\<lparr>responseTime := now w1 - now w\<rparr>), w1)"
  by (subst generateResponse.simps) simp

lemma generateResponse_fail_gpt4:
  "dispatch prov msg ctx GPT4 w = (Inl e, w1) \<Longrightarrow>
     generateResponse prov msg ctx GPT4 w = (Inl (Error ''Error al generar respuesta con IA''), w1)"
  by (subst generateResponse.simps) simp

lemma generateResponse_fallback:
  "dispatch prov msg ctx mdl w = (Inl e, w1) \<Longrightarrow> mdl \<noteq> GPT4 \<Longrightarrow>
     generateResponse prov msg ctx mdl w = generateResponse prov msg ctx GPT4 w1"
  by (subst generateResponse.simps) simp

lemma generateResponse_gpt4_calls:
  "calls (snd (generateResponse prov msg ctx GPT4 w)) = calls w @ [(GPT4, msg, ctx)]
   \<and> isl (fst (generateResponse prov msg ctx GPT4 w)) = isl (fst (dispatch prov msg ctx GPT4 w))
   \<and> (isl (fst (generateResponse prov msg ctx GPT4 w)) \<longrightarrow>
        fst (generateResponse prov msg ctx GPT4 w) = Inl (Error ''Error al generar respuesta con IA''))"
proof (cases "dispatch prov msg ctx GPT4 w")
  case (Pair r w1)
  have w1: "calls w1 = calls w @ [(GPT4, msg, ctx)]"
    using dispatch_world [of prov msg ctx GPT4 w] Pair by simp
  show ?thesis
  proof (cases r)
    case (Inl e)
    then show ?thesis using Pair w1 generateResponse_fail_gpt4 [of prov msg ctx w e w1] by simp
  next
    case (Inr a)
    then show ?thesis using Pair w1 generateResponse_ok [of prov msg ctx GPT4 w a w1] by simp
  qed
qed

lemma ex_first: "dispatch failThenOk ''hi'' emptyContext GeminiPro emptyWorld =
   (Inl (Error ''gemini''), emptyWorld\<lparr>now := 1100, calls := [(GeminiPro, ''hi'', emptyContext)]\<rparr>)"
  by (simp add: dispatch_def generateGeminiResponse_def invokeProvider_def failThenOk_def emptyWorld_def)

text \<open>
  C1. \<open>generateResponse\<close> is total: the recursive call is made with \<open>gpt-4\<close> from
  an invocation with another model only, so there is at most one (the termination
  proof of the definition), given that every provider call returns or throws. It makes
  at most two adapter invocations: the selected model once; if that attempt fails and
  the selected model is not \<open>gpt-4\<close>, \<open>gpt-4\<close> once, with the same message and
  context; when the selected model is \<open>gpt-4\<close> and fails, or the fallback attempt
  fails too, the call throws and nothing more is invoked.
\<close>

theorem generateResponse_attempts:
  "(let first = dispatch prov msg ctx mdl w; res = generateResponse prov msg ctx mdl w in
     (\<not> isl (fst first) \<longrightarrow>
        calls (snd res) = calls w @ [(mdl, msg, ctx)] \<and> \<not> isl (fst res))
   \<and> (isl (fst first) \<and> mdl = GPT4 \<longrightarrow>
        calls (snd res) = calls w @ [(GPT4, msg, ctx)]
        \<and> fst res = Inl (Error ''Error al generar respuesta con IA''))
   \<and> (isl (fst first) \<and> mdl \<noteq> GPT4 \<longrightarrow>
        calls (snd res) = calls w @ [(mdl, msg, ctx), (GPT4, msg, ctx)]
        \<and> (isl (fst res) = isl (fst (dispatch prov msg ctx GPT4 (snd first))))
        \<and> (isl (fst res) \<longrightarrow> fst res = Inl (Error ''Error al generar respuesta con IA'')))
   \<and> length (calls (snd res)) \<le> length (calls w) + 2)"
proof (cases "dispatch prov msg ctx mdl w")
  case (Pair r w1)
  have w1: "calls w1 = calls w @ [(mdl, msg, ctx)]"
    using dispatch_world [of prov msg ctx mdl w] Pair by simp
  show ?thesis
  proof (cases r)
    case (Inr a)
    then show ?thesis
      using Pair w1 generateResponse_ok [of prov msg ctx mdl w a w1] by (simp add: Let_def)
  next
    case (Inl e)
    show ?thesis
    proof (cases "mdl = GPT4")
      case True
      then show ?thesis
        using Pair Inl w1 generateResponse_fail_gpt4 [of prov msg ctx w e w1]
        by (simp add: Let_def)
    next
      case False
      then show ?thesis
        using Pair Inl w1 generateResponse_fallback [of prov msg ctx mdl w e w1]
          generateResponse_gpt4_calls [of prov msg ctx w1]
        by (simp add: Let_def)
    qed
  qed
qed

theorem generateResponse_attempts_witness:
  "isl (fst (dispatch failThenOk ''hi'' emptyContext GeminiPro emptyWorld))
   \<and> calls (snd (generateResponse failThenOk ''hi'' emptyContext GeminiPro emptyWorld))
       = [(GeminiPro, ''hi'', emptyContext), (GPT4, ''hi'', emptyContext)]"
proof -
  have h: "isl (fst (dispatch failThenOk ''hi'' emptyContext GeminiPro emptyWorld))"
    by (simp add: ex_first)
  have c: "calls emptyWorld = []" by (simp add: emptyWorld_def)
  show ?thesis
    using h c generateResponse_attempts [of failThenOk "''hi''" emptyContext GeminiPro emptyWorld]
    by (simp add: Let_def)
qed

text \<open>
  C9, as stated, fails on the fallback path: the primary attempt fails after 100 ms, the
  fallback answers after 50 ms more, and the reported \<open>responseTime\<close> is 50 while 150 ms
  have passed since the original invocation started.
\<close>

theorem generateResponse_latency_counterexample:
  "fst (generateResponse failThenOk ''hi'' emptyContext GeminiPro emptyWorld)
     = Inr \<lparr>content = ''ok'', model = GPT4, tokensUsed = Some 5, responseTime = 50\<rparr>
   \<and> now (snd (generateResponse failThenOk ''hi'' emptyContext GeminiPro emptyWorld)) - now emptyWorld = 150"
  by (simp add: generateResponse.simps [of failThenOk] dispatch_def generateGeminiResponse_def
      generateOpenAIResponse_def invokeProvider_def failThenOk_def emptyWorld_def okReply_def textOrEmpty_def)

text \<open>
  C9, amended. On success the \<open>responseTime\<close> is the time from the start of the
  invocation of \<open>generateResponse\<close> that called the answering adapter to the return of
  that adapter: the original invocation when the selected model answered, the recursive
  invocation (which starts when the failed primary attempt has returned) when \<open>gpt-4\<close>
  answered as fallback. The \<open>model\<close> field is the answering adapter's model in both
  cases.
\<close>

theorem generateResponse_latency:
  "generateResponse prov msg ctx mdl w = (Inr resp, w') \<Longrightarrow>
     (case dispatch prov msg ctx mdl w of
        (Inr a, w1) \<Rightarrow>
          w' = w1 \<and> resp = a\<lparr>responseTime := now w' - now w\<rparr> \<and> model resp = mdl
      | (Inl e, w1) \<Rightarrow>
          mdl \<noteq> GPT4 \<and> model resp = GPT4
          \<and> (\<exists>a. dispatch prov msg ctx GPT4 w1 = (Inr a, w')
                   \<and> resp = a\<lparr>responseTime := now w' - now w1\<rparr>)
          \<and> now w1 = now w + int (duration (prov (length (calls w)) mdl msg ctx)))"
proof (cases "dispatch prov msg ctx mdl w")
  case (Pair r w1)
  assume g: "generateResponse prov msg ctx mdl w = (Inr resp, w')"
  have w1: "now w1 = now w + int (duration (prov (length (calls w)) mdl msg ctx))"
    using dispatch_world [of prov msg ctx mdl w] Pair by simp
  show ?thesis
  proof (cases r)
    case (Inr a)
    then show ?thesis
      using Pair g generateResponse_ok [of prov msg ctx mdl w a w1]
        dispatch_model [of prov msg ctx mdl w a w1] by auto
  next
    case (Inl e)
    have ne: "mdl \<noteq> GPT4"
      using Pair Inl g generateResponse_fail_gpt4 [of prov msg ctx w e w1] by auto
    then have g2: "generateResponse prov msg ctx GPT4 w1 = (Inr resp, w')"
      using Pair Inl g generateResponse_fallback [of prov msg ctx mdl w e w1] by simp
    obtain r2 w2 where d2: "dispatch prov msg ctx GPT4 w1 = (r2, w2)"
      by (cases "dispatch prov msg ctx GPT4 w1") auto
    show ?thesis
    proof (cases r2)
      case (Inl e2)
      then show ?thesis
        using d2 g2 generateResponse_fail_gpt4 [of prov msg ctx w1 e2 w2] by simp
    next
      case (Inr a2)
      then show ?thesis
        using Pair Inl ne w1 d2 g2 generateResponse_ok [of prov msg ctx GPT4 w1 a2 w2]
          dispatch_model [of prov msg ctx GPT4 w1 a2 w2] by auto
    qed
  qed
qed

theorem generateResponse_latency_witness:
  "generateResponse failThenOk ''hi'' emptyContext GeminiPro emptyWorld
     = (Inr \<lparr>content = ''ok'', model = GPT4, tokensUsed = Some 5, responseTime = 50\<rparr>,
        emptyWorld\<lparr>now := 1150,
          calls := [(GeminiPro, ''hi'', emptyContext), (GPT4, ''hi'', emptyContext)]\<rparr>)
   \<and> (\<exists>a. dispatch failThenOk ''hi'' emptyContext GPT4
              (emptyWorld\<lparr>now := 1100, calls := [(GeminiPro, ''hi'', emptyContext)]\<rparr>)
           = (Inr a, emptyWorld\<lparr>now := 1150,
                calls := [(GeminiPro, ''hi'', emptyContext), (GPT4, ''hi'', emptyContext)]\<rparr>))"
proof -
  have g: "generateResponse failThenOk ''hi'' emptyContext GeminiPro emptyWorld
     = (Inr \<lparr>content = ''ok'', model = GPT4, tokensUsed = Some 5, responseTime = 50\<rparr>,
        emptyWorld\<lparr>now := 1150,
          calls := [(GeminiPro, ''hi'', emptyContext), (GPT4, ''hi'', emptyContext)]\<rparr>)"
    by (simp add: generateResponse.simps [of failThenOk] dispatch_def generateGeminiResponse_def
      generateOpenAIResponse_def invokeProvider_def failThenOk_def emptyWorld_def okReply_def
      textOrEmpty_def)
  show ?thesis
    using g generateResponse_latency [OF g] by (auto simp: ex_first)
qed

subsection \<open>Usage limits\<close>

lemma find_key: "find P xs = Some x \<Longrightarrow> P x"
  by (induction xs) (auto split: if_splits)

lemma orZero_Some: "orZero (Some l) = l"
  by (simp add: orZero_def)

text \<open>
  C6. For an existing tenant \<open>checkTenantLimits\<close> reports, for conversations and for
  messages, the count of the current period as \<open>used\<close>, and \<open>exceeded\<close> is true
  exactly when the stored limit is positive and \<open>used\<close> is at least the limit; with a
  stored limit of zero or less (such as -1), or none, \<open>exceeded\<close> is false whatever
  the count.
\<close>

theorem checkTenantLimits_exceeded:
  "findTenant tenantId w = Some tenant \<Longrightarrow>
     (\<exists>r. checkTenantLimits P tenantId w = Inr r
        \<and> used (conversationsStatus r) = conversationCount P tenantId w
        \<and> used (messagesStatus r) = messageCount P tenantId w
        \<and> (case lim_conversations (t_limits tenant) of
              None \<Rightarrow> \<not> exceeded (conversationsStatus r)
            | Some l \<Rightarrow>
                limit (conversationsStatus r) = l
                \<and> exceeded (conversationsStatus r)
                    = (l > 0 \<and> int (used (conversationsStatus r)) \<ge> l)
                \<and> (l \<le> 0 \<longrightarrow> \<not> exceeded (conversationsStatus r)))
        \<and> (case lim_messages (t_limits tenant) of
              None \<Rightarrow> \<not> exceeded (messagesStatus r)
            | Some l \<Rightarrow>
                limit (messagesStatus r) = l
                \<and> exceeded (messagesStatus r)
                    = (l > 0 \<and> int (used (messagesStatus r)) \<ge> l)
                \<and> (l \<le> 0 \<longrightarrow> \<not> exceeded (messagesStatus r))))"
  by (auto simp: checkTenantLimits_def Let_def isExceeded_def orZero_def split: option.splits)

theorem checkTenantLimits_exceeded_witness:
  "findTenant ''t1'' demoWorld = Some demoTenant
   \<and> (\<exists>r. checkTenantLimits demoPlatform ''t1'' demoWorld = Inr r
          \<and> exceeded (messagesStatus r) \<and> \<not> exceeded (conversationsStatus r))"
proof -
  have h: "findTenant ''t1'' demoWorld = Some demoTenant" by code_simp
  have m: "messageCount demoPlatform ''t1'' demoWorld = 2" by code_simp
  have c: "conversationCount demoPlatform ''t1'' demoWorld = 1" by code_simp
  have l: "lim_conversations (t_limits demoTenant) = Some 500"
    "lim_messages (t_limits demoTenant) = Some 2" by (simp_all add: demoTenant_def)
  show ?thesis
    using h checkTenantLimits_exceeded [OF h, of demoPlatform] m c l by auto
qed

subsection \<open>The handler\<close>

lemma catchHandler_ai:
  "catchHandler (Error ''Error al generar respuesta con IA'') = (500, ProcessingError)"
  by code_simp

lemma catchHandler_type: "catchHandler (Error ''TypeError'') = (500, ProcessingError)"
  by code_simp

lemma catchHandler_zod: "catchHandler ZodError = (400, InvalidData)"
  by (simp add: catchHandler_def)

lemma generateResponse_world:
  "\<exists>t cs. snd (generateResponse prov msg ctx mdl w) = w\<lparr>now := t, calls := calls w @ (mdl, msg, ctx) # cs\<rparr>
      \<and> (\<forall>c \<in> set cs. c = (GPT4, msg, ctx))"
proof (cases "dispatch prov msg ctx mdl w")
  case (Pair r w1)
  have w1: "w1 = w\<lparr>now := now w + int (duration (prov (length (calls w)) mdl msg ctx)),
       calls := calls w @ [(mdl, msg, ctx)]\<rparr>"
    using dispatch_world [of prov msg ctx mdl w] Pair by simp
  show ?thesis
  proof (cases r)
    case (Inr a)
    have "snd (generateResponse prov msg ctx mdl w) = w1"
      using Pair Inr generateResponse_ok [of prov msg ctx mdl w a w1] by simp
    then show ?thesis using w1 by (intro exI [of _ "now w1"] exI [of _ "[]"]) simp
  next
    case (Inl e)
    show ?thesis
    proof (cases "mdl = GPT4")
      case True
      have "snd (generateResponse prov msg ctx mdl w) = w1"
        using True Pair Inl generateResponse_fail_gpt4 [of prov msg ctx w e w1] by simp
      then show ?thesis using w1 by (intro exI [of _ "now w1"] exI [of _ "[]"]) simp
    next
      case False
      obtain r2 w2 where d2: "dispatch prov msg ctx GPT4 w1 = (r2, w2)"
        by (cases "dispatch prov msg ctx GPT4 w1") auto
      have w2: "w2 = w1\<lparr>now := now w1 + int (duration (prov (length (calls w1)) GPT4 msg ctx)),
          calls := calls w1 @ [(GPT4, msg, ctx)]\<rparr>"
        using dispatch_world [of prov msg ctx GPT4 w1] d2 by simp
      have "snd (generateResponse prov msg ctx GPT4 w1) = w2"
      proof (cases r2)
        case (Inl e2)
        then show ?thesis using d2 generateResponse_fail_gpt4 [of prov msg ctx w1 e2 w2] by simp
      next
        case (Inr a2)
        then show ?thesis using d2 generateResponse_ok [of prov msg ctx GPT4 w1 a2 w2] by simp
      qed
      then have "snd (generateResponse prov msg ctx mdl w) = w2"
        using False Pair Inl generateResponse_fallback [of prov msg ctx mdl w e w1] by simp
      then show ?thesis using w1 w2
        by (intro exI [of _ "now w2"] exI [of _ "[(GPT4, msg, ctx)]"]) simp
    qed
  qed
qed

lemma generateResponse_error:
  assumes "generateResponse prov msg ctx mdl w = (Inl e, w')"
  shows "e = Error ''Error al generar respuesta con IA''"
proof (cases "dispatch prov msg ctx mdl w")
  case (Pair r w1)
  show ?thesis
  proof (cases r)
    case (Inr a)
    then show ?thesis using Pair assms generateResponse_ok [of prov msg ctx mdl w a w1] by simp
  next
    case (Inl e1)
    show ?thesis
    proof (cases "mdl = GPT4")
      case True
      then show ?thesis
        using Pair Inl assms generateResponse_fail_gpt4 [of prov msg ctx w e1 w1] by simp
    next
      case False
      then have "generateResponse prov msg ctx GPT4 w1 = (Inl e, w')"
        using Pair Inl assms generateResponse_fallback [of prov msg ctx mdl w e1 w1] by simp
      then show ?thesis
        using generateResponse_gpt4_calls [of prov msg ctx w1] by simp
    qed
  qed
qed

lemma rev_take_rev: "rev (take n (rev xs)) = drop (length xs - n) xs"
  by (simp add: rev_take)

lemma assembleHistory_recent:
  "assembleHistory (recentMessages n k w) =
     map (\<lambda>m. (toRole (m_sender m), m_content m))
       (drop (length (chronological k w) - n) (chronological k w))"
  by (simp add: assembleHistory_def recentMessages_def rev_take_rev)

lemma sorted_chronological: "sorted (map m_createdAt (chronological k w))"
  by (simp add: chronological_def)

lemma findConversation_id: "findConversation k w = Some c \<Longrightarrow> c_id c = k"
  using find_key [of "\<lambda>c. c_id c = k" "conversations w" c] by (simp add: findConversation_def)

lemma findTenant_id: "findTenant k w = Some t \<Longrightarrow> t_id t = k"
  using find_key [of "\<lambda>t. t_id t = k" "tenants w" t] by (simp add: findTenant_def)

lemma resolveConversation_Inr:
  assumes "resolveConversation P req widget chatbot w = Inr ((conv, fetched), w0)"
  shows "fetched = recentMessages 10 (c_id conv) w0 \<and> messages w0 = messages w
         \<and> calls w0 = calls w \<and> now w0 = now w \<and> tenants w0 = tenants w"
proof (cases "case conversationId req of None \<Rightarrow> None | Some k \<Rightarrow> if k \<noteq> [] then Some k else None")
  case None
  then show ?thesis
    using assms
    by (auto simp: resolveConversation_def createConversation_def Let_def recentMessages_def
        chronological_def)
next
  case (Some k)
  then show ?thesis
    using assms findConversation_id [of k w]
    by (auto simp: resolveConversation_def split: option.splits if_splits)
qed

lemma postMessage_reach:
  assumes "chatMessageSchema P req"
    and "findWidget (widgetId req) w = Some widget" and "wg_isActive widget"
    and "findChatbot (wg_chatbotId widget) w = Some chatbot" and "cb_isActive chatbot"
    and "resolveConversation P req widget chatbot w = Inr ((conv, fetched), w0)"
  shows "postMessage P prov req w =
           completeTurn P prov req chatbot (findTenant (wg_tenantId widget) w) conv fetched w0"
  using assms by (simp add: postMessage_def)

lemma completeTurn_fail:
  assumes "createMessage P (c_id conv) (message req) USER w0 = (userMessage, w1)"
    and "generateResponse prov (message req) (buildContext req chatbot tenant fetched)
           (selectModelForTenant (t_plan tenant) (detectComplexity (message req))) w1 = (Inl e, w2)"
  shows "completeTurn P prov req chatbot (Some tenant) conv fetched w0 = ((500, ProcessingError), w2)"
  using assms generateResponse_error [OF assms(2)]
  by (simp add: completeTurn_def Let_def catchHandler_ai)

lemma generateResponse_messages:
  "generateResponse prov msg ctx mdl w = (r, w') \<Longrightarrow> messages w' = messages w \<and> conversations w' = conversations w"
  using generateResponse_world [of prov msg ctx mdl w] by auto

text \<open>
  C2. When the handler has resolved the conversation and stored the user message, and
  the generation then fails (the selected model and, where there is one, the fallback),
  the request is answered 500; the messages table is the one before the request with
  the user's message appended, in the resolved conversation, and no BOT message has
  been added.
\<close>

theorem ai_failure_keeps_user_message:
  assumes "chatMessageSchema P req"
    and "findWidget (widgetId req) w = Some widget" and "wg_isActive widget"
    and "findChatbot (wg_chatbotId widget) w = Some chatbot" and "cb_isActive chatbot"
    and "findTenant (wg_tenantId widget) w = Some tenant"
    and "resolveConversation P req widget chatbot w = Inr ((conv, fetched), w0)"
    and "createMessage P (c_id conv) (message req) USER w0 = (userMessage, w1)"
    and "generateResponse prov (message req) (buildContext req chatbot tenant fetched)
           (selectModelForTenant (t_plan tenant) (detectComplexity (message req))) w1 = (Inl e, w2)"
  shows "postMessage P prov req w = ((500, ProcessingError), w2)
       \<and> messages w2 = messages w @ [userMessage]
       \<and> m_content userMessage = message req \<and> m_sender userMessage = USER
       \<and> m_conversationId userMessage = c_id conv
       \<and> userMessage \<in> set (chronological (c_id conv) w2)
       \<and> filter (\<lambda>m. m_sender m = BOT) (messages w2) = filter (\<lambda>m. m_sender m = BOT) (messages w)"
proof -
  have p: "postMessage P prov req w = ((500, ProcessingError), w2)"
    using postMessage_reach [OF assms(1-5) assms(7), of prov] assms(6)
      completeTurn_fail [OF assms(8) assms(9)] by simp
  have m0: "messages w0 = messages w" using resolveConversation_Inr [OF assms(7)] by simp
  have um: "userMessage = \<lparr>m_id = cuid P (idCounter w0), m_content = message req, m_sender = USER,
               m_conversationId = c_id conv, m_createdAt = now w0\<rparr>"
    and m1: "messages w1 = messages w0 @ [userMessage]"
    using assms(8) by (auto simp: createMessage_def Let_def)
  have m2: "messages w2 = messages w1" using generateResponse_messages [OF assms(9)] by simp
  have ms: "messages w2 = messages w @ [userMessage]" using m0 m1 m2 by simp
  have u: "m_content userMessage = message req \<and> m_sender userMessage = USER
       \<and> m_conversationId userMessage = c_id conv" using um by simp
  have c: "userMessage \<in> set (chronological (c_id conv) w2)"
    using ms u by (simp add: chronological_def)
  have b: "filter (\<lambda>m. m_sender m = BOT) (messages w2) = filter (\<lambda>m. m_sender m = BOT) (messages w)"
    using ms u by simp
  show ?thesis using p ms u c b by simp
qed

theorem ai_failure_keeps_user_message_witness:
  "resolveConversation demoPlatform continueRequest demoWidget demoChatbot demoWorld
     = Inr ((demoConversation, [demoMessage2, demoMessage1]), demoWorld)
   \<and> fst (postMessage demoPlatform alwaysFail continueRequest demoWorld) = (500, ProcessingError)
   \<and> messages (snd (postMessage demoPlatform alwaysFail continueRequest demoWorld))
       = [demoMessage1, demoMessage2, demoUserMessage]"
proof -
  have s: "chatMessageSchema demoPlatform continueRequest" by code_simp
  have g: "findWidget (widgetId continueRequest) demoWorld = Some demoWidget" by code_simp
  have ga: "wg_isActive demoWidget" by code_simp
  have b: "findChatbot (wg_chatbotId demoWidget) demoWorld = Some demoChatbot" by code_simp
  have ba: "cb_isActive demoChatbot" by code_simp
  have t: "findTenant (wg_tenantId demoWidget) demoWorld = Some demoTenant" by code_simp
  have r: "resolveConversation demoPlatform continueRequest demoWidget demoChatbot demoWorld
     = Inr ((demoConversation, [demoMessage2, demoMessage1]), demoWorld)" by code_simp
  have c: "createMessage demoPlatform (c_id demoConversation) (message continueRequest) USER demoWorld
     = (demoUserMessage, demoWorld1)" by code_simp
  define w2 where "w2 = snd (generateResponse alwaysFail (message continueRequest)
     (buildContext continueRequest demoChatbot demoTenant [demoMessage2, demoMessage1])
     (selectModelForTenant (t_plan demoTenant) (detectComplexity (message continueRequest)))
     demoWorld1)"
  have f: "fst (generateResponse alwaysFail (message continueRequest)
     (buildContext continueRequest demoChatbot demoTenant [demoMessage2, demoMessage1])
     (selectModelForTenant (t_plan demoTenant) (detectComplexity (message continueRequest)))
     demoWorld1) = Inl (Error ''Error al generar respuesta con IA'')" by code_simp
  have e: "generateResponse alwaysFail (message continueRequest)
     (buildContext continueRequest demoChatbot demoTenant [demoMessage2, demoMessage1])
     (selectModelForTenant (t_plan demoTenant) (detectComplexity (message continueRequest)))
     demoWorld1 = (Inl (Error ''Error al generar respuesta con IA''), w2)"
    using f by (simp add: w2_def prod_eq_iff)
  have m: "messages demoWorld = [demoMessage1, demoMessage2]" by (simp add: demoWorld_def)
  show ?thesis
    using r m ai_failure_keeps_user_message [OF s g ga b ba t r c e] by simp
qed

lemma completeTurn_calls:
  "\<exists>mdl cs. calls (snd (completeTurn P prov req chatbot (Some tenant) conv fetched w0))
      = calls w0 @ (mdl, message req, buildContext req chatbot tenant fetched) # cs
    \<and> (\<forall>c \<in> set cs. c = (GPT4, message req, buildContext req chatbot tenant fetched))"
proof -
  define w1 where "w1 = snd (createMessage P (c_id conv) (message req) USER w0)"
  define ctx where "ctx = buildContext req chatbot tenant fetched"
  define mdl where "mdl = selectModelForTenant (t_plan tenant) (detectComplexity (message req))"
  have c1: "calls w1 = calls w0" by (simp add: w1_def createMessage_def Let_def)
  obtain r w2 where g: "generateResponse prov (message req) ctx mdl w1 = (r, w2)"
    by (cases "generateResponse prov (message req) ctx mdl w1") auto
  obtain t cs where w2: "w2 = w1\<lparr>now := t, calls := calls w1 @ (mdl, message req, ctx) # cs\<rparr>"
    and cs: "\<forall>c \<in> set cs. c = (GPT4, message req, ctx)"
    using generateResponse_world [of prov "message req" ctx mdl w1] g by auto
  have "calls (snd (completeTurn P prov req chatbot (Some tenant) conv fetched w0)) = calls w2"
    using g
    by (cases r)
      (simp_all add: completeTurn_def Let_def createMessage_def w1_def ctx_def mdl_def
        split: prod.splits)
  then show ?thesis using w2 c1 cs ctx_def by auto
qed

lemma sorted_take_drop:
  assumes "sorted (map f xs)"
  shows "\<forall>a \<in> set (take n xs). \<forall>b \<in> set (drop n xs). f a \<le> f b"
proof -
  have "sorted (map f (take n xs) @ map f (drop n xs))"
    using assms by (simp flip: map_append)
  then show ?thesis by (auto simp: sorted_append)
qed

text \<open>
  C5. When a turn reaches the generation step, let \<open>own\<close> be the rows of the messages
  table, as it is before the request, that belong to the resolved conversation, and
  \<open>k\<close> their number. Every adapter invocation of the turn (there is at least one)
  carries the current message and a history of exactly \<open>min k 10\<close> entries: the rows of
  \<open>own\<close> with the largest creation times, oldest first, with \<open>USER\<close> mapped to the user
  role and \<open>BOT\<close> to the assistant role. Every row behind the history is a row of this
  conversation stored before the request, so the user message of the turn is not among
  them, and every row of \<open>own\<close> that is left out is no newer than any row kept.
\<close>

theorem context_history:
  assumes "chatMessageSchema P req"
    and "findWidget (widgetId req) w = Some widget" and "wg_isActive widget"
    and "findChatbot (wg_chatbotId widget) w = Some chatbot" and "cb_isActive chatbot"
    and "findTenant (wg_tenantId widget) w = Some tenant"
    and "resolveConversation P req widget chatbot w = Inr ((conv, fetched), w0)"
  shows "(let own = filter (\<lambda>m. m_conversationId m = c_id conv) (messages w);
              k = length own;
              older = take (k - 10) (sort_key m_createdAt own);
              recent = drop (k - 10) (sort_key m_createdAt own);
              history = map (\<lambda>m. (toRole (m_sender m), m_content m)) recent;
              after = calls (snd (postMessage P prov req w))
          in length history = min k 10
           \<and> (\<forall>m \<in> set recent. m \<in> set (messages w) \<and> m_conversationId m = c_id conv)
           \<and> sorted (map m_createdAt recent)
           \<and> (\<forall>a \<in> set older. \<forall>b \<in> set recent. m_createdAt a \<le> m_createdAt b)
           \<and> set older \<union> set recent = set own
           \<and> messages w0 = messages w
           \<and> length (calls w) < length after \<and> take (length (calls w)) after = calls w
           \<and> (\<forall>c \<in> set (drop (length (calls w)) after).
                 fst (snd c) = message req \<and> conversationHistory (snd (snd c)) = Some history))
         \<and> toRole USER = RoleUser \<and> toRole BOT = RoleAssistant"
proof -
  define own where "own = filter (\<lambda>m. m_conversationId m = c_id conv) (messages w)"
  define chron where "chron = sort_key m_createdAt own"
  define older where "older = take (length own - 10) chron"
  define recent where "recent = drop (length own - 10) chron"
  define history where "history = map (\<lambda>m. (toRole (m_sender m), m_content m)) recent"
  have r: "fetched = recentMessages 10 (c_id conv) w0" "messages w0 = messages w"
    "calls w0 = calls w"
    using resolveConversation_Inr [OF assms(7)] by simp_all
  have c: "chronological (c_id conv) w0 = chron"
    using r(2) by (simp add: chronological_def chron_def own_def)
  have lc: "length chron = length own" by (simp add: chron_def)
  have sc: "set chron = set own" by (simp add: chron_def)
  have h: "conversationHistory (buildContext req chatbot tenant fetched) = Some history"
    using r(1) c lc
    by (simp add: buildContext_def assembleHistory_recent history_def recent_def)
  have p: "postMessage P prov req w = completeTurn P prov req chatbot (Some tenant) conv fetched w0"
    using postMessage_reach [OF assms(1-5) assms(7), of prov] assms(6) by simp
  obtain mdl cs where a: "calls (snd (postMessage P prov req w))
      = calls w @ (mdl, message req, buildContext req chatbot tenant fetched) # cs"
    and cs: "\<forall>c \<in> set cs. c = (GPT4, message req, buildContext req chatbot tenant fetched)"
    using completeTurn_calls [of P prov req chatbot tenant conv fetched w0] p r(3) by auto
  have l: "length history = min (length own) 10"
    using lc by (simp add: history_def recent_def)
  have sub: "set recent \<subseteq> set own"
    using set_drop_subset [of "length own - 10" chron] sc by (simp add: recent_def)
  have mem: "\<forall>m \<in> set recent. m \<in> set (messages w) \<and> m_conversationId m = c_id conv"
    using sub by (auto simp: own_def)
  have sch: "sorted (map m_createdAt chron)" by (simp add: chron_def)
  have s: "sorted (map m_createdAt recent)"
    using sch sorted_wrt_drop [of "(\<le>)" "map m_createdAt chron" "length own - 10"]
    by (simp add: recent_def drop_map)
  have o: "\<forall>a \<in> set older. \<forall>b \<in> set recent. m_createdAt a \<le> m_createdAt b"
    using sorted_take_drop [OF sch] by (simp add: older_def recent_def)
  have u: "set older \<union> set recent = set own"
    using set_append [of "take (length own - 10) chron" "drop (length own - 10) chron"] sc
    by (simp add: older_def recent_def)
  have q: "\<forall>c \<in> set (drop (length (calls w)) (calls (snd (postMessage P prov req w)))).
                 fst (snd c) = message req \<and> conversationHistory (snd (snd c)) = Some history"
    using a cs h by auto
  have t: "toRole USER = RoleUser \<and> toRole BOT = RoleAssistant"
    by (simp add: toRole_def)
  show ?thesis
    unfolding Let_def own_def [symmetric] chron_def [symmetric] older_def [symmetric]
      recent_def [symmetric] history_def [symmetric]
    using l mem s o u r(2) a q t by simp
qed

theorem context_history_witness:
  "length (messages busyWorld) = 14
   \<and> length (filter (\<lambda>m. m_conversationId m = ownUuid) (messages busyWorld)) = 12
   \<and> conversationHistory (snd (snd (hd (calls (snd (postMessage demoPlatform alwaysOk
        continueRequest busyWorld))))))
       = Some [(RoleUser, ''q3''), (RoleAssistant, ''q4''), (RoleUser, ''q5''),
               (RoleAssistant, ''q6''), (RoleAssistant, ''q8''), (RoleUser, ''q9''),
               (RoleAssistant, ''q10''), (RoleUser, ''q11''), (RoleAssistant, ''q12''),
               (RoleUser, ''q13'')]"
proof -
  have s: "chatMessageSchema demoPlatform continueRequest" by code_simp
  have g: "findWidget (widgetId continueRequest) busyWorld = Some demoWidget" by code_simp
  have ga: "wg_isActive demoWidget" by code_simp
  have b: "findChatbot (wg_chatbotId demoWidget) busyWorld = Some demoChatbot" by code_simp
  have ba: "cb_isActive demoChatbot" by code_simp
  have t: "findTenant (wg_tenantId demoWidget) busyWorld = Some demoTenant" by code_simp
  have fc: "findConversation ownUuid busyWorld = Some demoConversation" by code_simp
  have ci: "c_id demoConversation = ownUuid" by (simp add: demoConversation_def)
  have r: "resolveConversation demoPlatform continueRequest demoWidget demoChatbot busyWorld
     = Inr ((demoConversation, recentMessages 10 (c_id demoConversation) busyWorld), busyWorld)"
  proof -
    have "conversationId continueRequest = Some ownUuid" by (simp add: continueRequest_def)
    moreover have "ownUuid \<noteq> []" by (simp add: ownUuid_def)
    moreover have "c_tenantId demoConversation = wg_tenantId demoWidget" by code_simp
    ultimately show ?thesis using fc ci by (simp add: resolveConversation_def)
  qed
  have n: "length (messages busyWorld) = 14" by code_simp
  have k: "length (filter (\<lambda>m. m_conversationId m = ownUuid) (messages busyWorld)) = 12"
    by code_simp
  have cs: "calls busyWorld = []" by code_simp
  have e: "map (\<lambda>m. (toRole (m_sender m), m_content m))
             (drop (12 - 10) (sort_key m_createdAt
                (filter (\<lambda>m. m_conversationId m = ownUuid) (messages busyWorld))))
       = [(RoleUser, ''q3''), (RoleAssistant, ''q4''), (RoleUser, ''q5''),
          (RoleAssistant, ''q6''), (RoleAssistant, ''q8''), (RoleUser, ''q9''),
          (RoleAssistant, ''q10''), (RoleUser, ''q11''), (RoleAssistant, ''q12''),
          (RoleUser, ''q13'')]"
    by code_simp
  define after where
    "after = calls (snd (postMessage demoPlatform alwaysOk continueRequest busyWorld))"
  define hist where "hist = map (\<lambda>m. (toRole (m_sender m), m_content m))
             (drop (12 - 10) (sort_key m_createdAt
                (filter (\<lambda>m. m_conversationId m = ownUuid) (messages busyWorld))))"
  note th = context_history [OF s g ga b ba t r, of alwaysOk, unfolded Let_def ci k,
      folded hist_def after_def]
  have f1: "length (calls busyWorld) < length after" using th by (elim conjE) assumption
  have f2: "\<forall>c \<in> set (drop (length (calls busyWorld)) after).
      fst (snd c) = message continueRequest \<and> conversationHistory (snd (snd c)) = Some hist"
    using th by (elim conjE) assumption
  have "hd after \<in> set after" using f1 cs by simp
  then have "conversationHistory (snd (snd (hd after))) = Some hist"
    using f2 cs by simp
  then show ?thesis
    using n k e unfolding hist_def after_def by simp
qed

subsection \<open>The route\<close>

lemma validateWidgetAccess_Inr:
  "validateWidgetAccess req w = Inr tid \<Longrightarrow>
     \<exists>g t. findWidget (widgetId req) w = Some g \<and> wg_isActive g
          \<and> findTenant (wg_tenantId g) w = Some t \<and> t_isActive t \<and> tid = t_id t
          \<and> findTenant tid w = Some t"
  using findTenant_id
  by (auto simp: validateWidgetAccess_def split: if_splits option.splits)

lemma validateWidgetAccess_Inl:
  "validateWidgetAccess req w = Inl r \<Longrightarrow> fst r \<in> {400, 403, 404, 500}"
  by (auto simp: validateWidgetAccess_def split: if_splits option.splits)

lemma checkUsageLimits_conversations:
  "findTenant tid w = Some t \<Longrightarrow>
     checkUsageLimits P ConversationsLimit tid w =
       (if isExceeded (lim_conversations (t_limits t)) (conversationCount P tid w)
        then Some (429, LimitReached ''conversations'' (conversationCount P tid w)
                          (orZero (lim_conversations (t_limits t))))
        else None)"
  by (simp add: checkUsageLimits_def checkTenantLimits_def Let_def)

lemma completeTurn_status:
  "fst (fst (completeTurn P prov req chatbot tenantOpt conv fetched w0)) \<in> {200, 500}"
proof -
  obtain um w1 where cm: "createMessage P (c_id conv) (message req) USER w0 = (um, w1)"
    by (cases "createMessage P (c_id conv) (message req) USER w0") auto
  show ?thesis
  proof (cases tenantOpt)
    case None
    then show ?thesis using cm by (simp add: completeTurn_def catchHandler_type)
  next
    case (Some tenant)
    obtain r w2 where g: "generateResponse prov (message req)
         (buildContext req chatbot tenant fetched)
         (selectModelForTenant (t_plan tenant) (detectComplexity (message req))) w1 = (r, w2)"
      by (cases "generateResponse prov (message req)
         (buildContext req chatbot tenant fetched)
         (selectModelForTenant (t_plan tenant) (detectComplexity (message req))) w1") auto
    show ?thesis
    proof (cases r)
      case (Inl e)
      then show ?thesis
        using Some cm g generateResponse_error [OF g [unfolded Inl]]
        by (simp add: completeTurn_def Let_def catchHandler_ai)
    next
      case (Inr a)
      then show ?thesis
        using Some cm g by (simp add: completeTurn_def Let_def split: prod.splits)
    qed
  qed
qed

lemma completeTurn_written:
  "fst (fst (completeTurn P prov req chatbot tenantOpt conv fetched w0)) = 200 \<longrightarrow>
     length (messages (snd (completeTurn P prov req chatbot tenantOpt conv fetched w0)))
       = length (messages w0) + 2"
proof -
  obtain um w1 where cm: "createMessage P (c_id conv) (message req) USER w0 = (um, w1)"
    by (cases "createMessage P (c_id conv) (message req) USER w0") auto
  then have m1: "messages w1 = messages w0 @ [um]" by (auto simp: createMessage_def Let_def)
  show ?thesis
  proof (cases tenantOpt)
    case None
    then show ?thesis using cm by (simp add: completeTurn_def catchHandler_type)
  next
    case (Some tenant)
    obtain r w2 where g: "generateResponse prov (message req)
         (buildContext req chatbot tenant fetched)
         (selectModelForTenant (t_plan tenant) (detectComplexity (message req))) w1 = (r, w2)"
      by (cases "generateResponse prov (message req)
         (buildContext req chatbot tenant fetched)
         (selectModelForTenant (t_plan tenant) (detectComplexity (message req))) w1") auto
    have m2: "messages w2 = messages w1" using generateResponse_messages [OF g] by simp
    show ?thesis
    proof (cases r)
      case (Inl e)
      then show ?thesis
        using Some cm g generateResponse_error [OF g [unfolded Inl]]
        by (simp add: completeTurn_def Let_def catchHandler_ai)
    next
      case (Inr a)
      obtain bm w3 where cb: "createMessage P (c_id conv) (content a) BOT w2 = (bm, w3)"
        by (cases "createMessage P (c_id conv) (content a) BOT w2") auto
      then have m3: "messages w3 = messages w2 @ [bm]"
        by (auto simp: createMessage_def Let_def)
      show ?thesis
        using Some Inr cm g cb m1 m2 m3 by (simp add: completeTurn_def Let_def)
    qed
  qed
qed

lemma postMessage_cases:
  "(\<exists>r. postMessage P prov req w = (r, w) \<and> fst r \<in> {400, 404, 503})
   \<or> (\<exists>chatbot topt conv fetched w0.
         postMessage P prov req w = completeTurn P prov req chatbot topt conv fetched w0
         \<and> messages w0 = messages w)"
proof -
  have early: "\<And>r. postMessage P prov req w = (r, w) \<Longrightarrow> fst r \<in> {400, 404, 503} \<Longrightarrow> ?thesis"
    by blast
  show ?thesis
  proof (cases "chatMessageSchema P req")
    case False
    then show ?thesis
      by (intro early [of "(400, InvalidData)"]) (simp_all add: postMessage_def catchHandler_zod)
  next
    case schema: True
    show ?thesis
    proof (cases "findWidget (widgetId req) w")
      case None
      then show ?thesis
        using schema
        by (intro early [of "(404, WidgetNotFoundOrInactive)"]) (simp_all add: postMessage_def)
    next
      case g: (Some g)
      show ?thesis
      proof (cases "wg_isActive g")
        case False
        then show ?thesis
          using schema g
          by (intro early [of "(404, WidgetNotFoundOrInactive)"]) (simp_all add: postMessage_def)
      next
        case ga: True
        show ?thesis
        proof (cases "findChatbot (wg_chatbotId g) w")
          case None
          then show ?thesis
            using schema g ga
            by (intro early [of "(503, ChatbotUnavailable)"]) (simp_all add: postMessage_def)
        next
          case b: (Some b)
          show ?thesis
          proof (cases "cb_isActive b")
            case False
            then show ?thesis
              using schema g ga b
              by (intro early [of "(503, ChatbotUnavailable)"]) (simp_all add: postMessage_def)
          next
            case ba: True
            show ?thesis
            proof (cases "resolveConversation P req g b w")
              case (Inl r)
              then have "r = (404, ConversationNotFound)"
                by (auto simp: resolveConversation_def Let_def
                    split: option.splits if_splits prod.splits)
              then show ?thesis
                using schema g ga b ba Inl
                by (intro early [of "(404, ConversationNotFound)"]) (simp_all add: postMessage_def)
            next
              case (Inr x)
              obtain conv fetched w0 where x: "x = ((conv, fetched), w0)"
                by (metis surj_pair)
              have "messages w0 = messages w"
                using resolveConversation_Inr [OF Inr [unfolded x]] by simp
              moreover have "postMessage P prov req w =
                  completeTurn P prov req b (findTenant (wg_tenantId g) w) conv fetched w0"
                using postMessage_reach [OF schema g ga b ba Inr [unfolded x]] .
              ultimately show ?thesis by blast
            qed
          qed
        qed
      qed
    qed
  qed
qed

lemma postMessage_written:
  "fst (fst (postMessage P prov req w)) = 200 \<longrightarrow>
     length (messages (snd (postMessage P prov req w))) = length (messages w) + 2"
proof -
  consider r where "postMessage P prov req w = (r, w)" "fst r \<in> {400, 404, 503}"
    | chatbot topt conv fetched w0 where
        "postMessage P prov req w = completeTurn P prov req chatbot topt conv fetched w0"
        "messages w0 = messages w"
    using postMessage_cases [of P prov req w] by blast
  then show ?thesis
  proof cases
    case 1
    then show ?thesis by auto
  next
    case 2
    then show ?thesis
      using completeTurn_written [of P prov req chatbot topt conv fetched w0] by simp
  qed
qed

lemma postMessage_status:
  "fst (fst (postMessage P prov req w)) \<in> {200, 400, 404, 500, 503}"
proof -
  consider r where "postMessage P prov req w = (r, w)" "fst r \<in> {400, 404, 503}"
    | chatbot topt conv fetched w0 where
        "postMessage P prov req w = completeTurn P prov req chatbot topt conv fetched w0"
    using postMessage_cases [of P prov req w] by blast
  then show ?thesis
  proof cases
    case 1
    then show ?thesis by auto
  next
    case 2
    then show ?thesis
      using completeTurn_status [of P prov req chatbot topt conv fetched w0] by auto
  qed
qed

lemma resolveConversation_missing:
  assumes "conversationId req = Some k" and "k \<noteq> []"
    and "findConversation k w = None
         \<or> (\<exists>c. findConversation k w = Some c \<and> c_tenantId c \<noteq> wg_tenantId widget)"
  shows "resolveConversation P req widget chatbot w = Inl (404, ConversationNotFound)"
  using assms by (auto simp: resolveConversation_def)

lemma postMessage_missing:
  assumes "conversationId req = Some k" and "k \<noteq> []"
    and "findConversation k w = None
         \<or> (\<exists>c. findConversation k w = Some c
                \<and> (\<forall>g. findWidget (widgetId req) w = Some g \<longrightarrow> c_tenantId c \<noteq> wg_tenantId g))"
  shows "snd (postMessage P prov req w) = w
       \<and> fst (fst (postMessage P prov req w)) \<in> {400, 404, 503}
       \<and> (chatMessageSchema P req
            \<and> (\<exists>g b. findWidget (widgetId req) w = Some g \<and> wg_isActive g
                      \<and> findChatbot (wg_chatbotId g) w = Some b \<and> cb_isActive b)
           \<longrightarrow> postMessage P prov req w = ((404, ConversationNotFound), w))"
proof (cases "findWidget (widgetId req) w")
  case None
  then show ?thesis by (simp add: postMessage_def catchHandler_zod)
next
  case (Some g)
  show ?thesis
  proof (cases "findChatbot (wg_chatbotId g) w")
    case None
    then show ?thesis using Some by (simp add: postMessage_def catchHandler_zod)
  next
    case b: (Some b)
    have "findConversation k w = None
         \<or> (\<exists>c. findConversation k w = Some c \<and> c_tenantId c \<noteq> wg_tenantId g)"
      using assms(3) Some by auto
    then have "resolveConversation P req g b w = Inl (404, ConversationNotFound)"
      using resolveConversation_missing [OF assms(1,2)] by simp
    then show ?thesis using Some b by (simp add: postMessage_def catchHandler_zod)
  qed
qed

text \<open>
  C7. A request that supplies a conversation id naming no conversation, or a
  conversation of another tenant than the widget's, changes nothing: no conversation is
  created, no message is written, no provider is called, and the answer is an error.
  When the request passes the middleware and the validation and the widget's chatbot is
  active, the answer is 404, conversation not found.
\<close>

theorem unknown_conversation_rejected:
  assumes "conversationId req = Some k" and "k \<noteq> []"
    and "findConversation k w = None
         \<or> (\<exists>c. findConversation k w = Some c
                \<and> (\<forall>g. findWidget (widgetId req) w = Some g \<longrightarrow> c_tenantId c \<noteq> wg_tenantId g))"
  shows "snd (chatMessageRoute P prov limited req w) = w
       \<and> fst (fst (chatMessageRoute P prov limited req w)) \<in> {400, 403, 404, 429, 500, 503}
       \<and> (\<not> limited
            \<and> (\<exists>tid. validateWidgetAccess req w = Inr tid
                  \<and> checkUsageLimits P ConversationsLimit tid w = None)
            \<and> chatMessageSchema P req
            \<and> (\<exists>g b. findWidget (widgetId req) w = Some g
                      \<and> findChatbot (wg_chatbotId g) w = Some b \<and> cb_isActive b)
           \<longrightarrow> chatMessageRoute P prov limited req w = ((404, ConversationNotFound), w))"
proof (cases limited)
  case True
  then show ?thesis by (simp add: chatMessageRoute_def)
next
  case False
  show ?thesis
  proof (cases "validateWidgetAccess req w")
    case (Inl r)
    then show ?thesis
      using False validateWidgetAccess_Inl [OF Inl] by (auto simp: chatMessageRoute_def)
  next
    case (Inr tid)
    obtain g t where g: "findWidget (widgetId req) w = Some g" "wg_isActive g"
      and t: "findTenant tid w = Some t"
      using validateWidgetAccess_Inr [OF Inr] by auto
    show ?thesis
    proof (cases "checkUsageLimits P ConversationsLimit tid w")
      case (Some r)
      then show ?thesis
        using False Inr checkUsageLimits_conversations [OF t, of P]
        by (auto simp: chatMessageRoute_def split: if_splits)
    next
      case None
      then have "chatMessageRoute P prov limited req w = postMessage P prov req w"
        using False Inr by (simp add: chatMessageRoute_def)
      then show ?thesis
        using postMessage_missing [OF assms, of P prov] g Inr None by auto
    qed
  qed
qed

theorem unknown_conversation_rejected_witness:
  "conversationId foreignRequest = Some foreignUuid
   \<and> findConversation foreignUuid demoWorld = Some foreignConversation
   \<and> findWidget (widgetId foreignRequest) demoWorld = Some demoWidget
   \<and> c_tenantId foreignConversation \<noteq> wg_tenantId demoWidget
   \<and> chatMessageRoute demoPlatform alwaysOk False foreignRequest demoWorld
       = ((404, ConversationNotFound), demoWorld)"
proof -
  have k: "conversationId foreignRequest = Some foreignUuid" by (simp add: foreignRequest_def)
  have ne: "foreignUuid \<noteq> []" by (simp add: foreignUuid_def)
  have f: "findConversation foreignUuid demoWorld = Some foreignConversation" by code_simp
  have g: "findWidget (widgetId foreignRequest) demoWorld = Some demoWidget" by code_simp
  have d: "c_tenantId foreignConversation \<noteq> wg_tenantId demoWidget" by code_simp
  have h3: "findConversation foreignUuid demoWorld = None
         \<or> (\<exists>c. findConversation foreignUuid demoWorld = Some c
                \<and> (\<forall>g. findWidget (widgetId foreignRequest) demoWorld = Some g
                       \<longrightarrow> c_tenantId c \<noteq> wg_tenantId g))"
    using f g d by simp
  have v: "validateWidgetAccess foreignRequest demoWorld = Inr ''t1''" by code_simp
  have l: "checkUsageLimits demoPlatform ConversationsLimit ''t1'' demoWorld = None" by code_simp
  have s: "chatMessageSchema demoPlatform foreignRequest" by code_simp
  have b: "findChatbot (wg_chatbotId demoWidget) demoWorld = Some demoChatbot"
    "cb_isActive demoChatbot" by code_simp+
  have "chatMessageRoute demoPlatform alwaysOk False foreignRequest demoWorld
       = ((404, ConversationNotFound), demoWorld)"
    using unknown_conversation_rejected [OF k ne h3, of demoPlatform alwaysOk False] v l s g b
    by blast
  then show ?thesis using k f g d by simp
qed

text \<open>
  C10. Apart from the rate limiter's own answer, the route answers 429 exactly when the
  request passes \<open>validateWidgetAccess\<close> and the conversations limit of the widget's
  tenant is reached; the answer is then the conversations-limit response and nothing is
  changed. The messages limit plays no part, so a tenant whose messages limit is
  reached is still served, although a turn answered 200 writes two messages. Whether
  the answer is 429 does not depend on the conversation id of the request, so the check
  also rejects requests that continue an existing conversation.
\<close>

theorem route_limit_gate:
  "((fst (fst (chatMessageRoute P prov limited req w)) = 429) =
      (limited
       \<or> (\<exists>t. validateWidgetAccess req w = Inr (t_id t) \<and> findTenant (t_id t) w = Some t
             \<and> isExceeded (lim_conversations (t_limits t)) (conversationCount P (t_id t) w))))
   \<and> (fst (fst (chatMessageRoute P prov limited req w)) = 429 \<longrightarrow>
        snd (chatMessageRoute P prov limited req w) = w
        \<and> (if limited then snd (fst (chatMessageRoute P prov limited req w)) = TooManyMessages
            else \<exists>u l. snd (fst (chatMessageRoute P prov limited req w))
                          = LimitReached ''conversations'' u l))
   \<and> ((fst (fst (chatMessageRoute P prov limited (req\<lparr>conversationId := k\<rparr>) w)) = 429)
        = (fst (fst (chatMessageRoute P prov limited req w)) = 429))
   \<and> (fst (fst (chatMessageRoute P prov limited req w)) = 200 \<longrightarrow>
        length (messages (snd (chatMessageRoute P prov limited req w)))
          = length (messages w) + 2)"
proof -
  have main: "((fst (fst (chatMessageRoute P prov limited rq w)) = 429) =
      (limited
       \<or> (\<exists>t. validateWidgetAccess rq w = Inr (t_id t) \<and> findTenant (t_id t) w = Some t
             \<and> isExceeded (lim_conversations (t_limits t)) (conversationCount P (t_id t) w))))
     \<and> (fst (fst (chatMessageRoute P prov limited rq w)) = 429 \<longrightarrow>
        snd (chatMessageRoute P prov limited rq w) = w
        \<and> (if limited then snd (fst (chatMessageRoute P prov limited rq w)) = TooManyMessages
            else \<exists>u l. snd (fst (chatMessageRoute P prov limited rq w))
                          = LimitReached ''conversations'' u l))
     \<and> (fst (fst (chatMessageRoute P prov limited rq w)) = 200 \<longrightarrow>
        length (messages (snd (chatMessageRoute P prov limited rq w)))
          = length (messages w) + 2)" for rq
  proof (cases limited)
    case True
    then show ?thesis by (simp add: chatMessageRoute_def)
  next
    case nl: False
    show ?thesis
    proof (cases "validateWidgetAccess rq w")
      case (Inl r)
      then show ?thesis
        using nl validateWidgetAccess_Inl [OF Inl] by (auto simp: chatMessageRoute_def)
    next
      case (Inr tid)
      obtain t where t: "findTenant tid w = Some t" "tid = t_id t"
        using validateWidgetAccess_Inr [OF Inr] by auto
      show ?thesis
      proof (cases "isExceeded (lim_conversations (t_limits t)) (conversationCount P tid w)")
        case True
        then have "chatMessageRoute P prov limited rq w =
            ((429, LimitReached ''conversations'' (conversationCount P tid w)
                     (orZero (lim_conversations (t_limits t)))), w)"
          using nl Inr checkUsageLimits_conversations [OF t(1), of P]
          by (simp add: chatMessageRoute_def)
        moreover have "\<exists>t. validateWidgetAccess rq w = Inr (t_id t)
           \<and> findTenant (t_id t) w = Some t
           \<and> isExceeded (lim_conversations (t_limits t)) (conversationCount P (t_id t) w)"
          using True Inr t by blast
        ultimately show ?thesis using nl by simp
      next
        case False
        then have eq: "chatMessageRoute P prov limited rq w = postMessage P prov rq w"
          using nl Inr checkUsageLimits_conversations [OF t(1), of P]
          by (simp add: chatMessageRoute_def)
        then have ne: "fst (fst (chatMessageRoute P prov limited rq w)) \<noteq> 429"
          using postMessage_status [of P prov rq w] by auto
        have "\<not> (\<exists>t. validateWidgetAccess rq w = Inr (t_id t) \<and> findTenant (t_id t) w = Some t
           \<and> isExceeded (lim_conversations (t_limits t)) (conversationCount P (t_id t) w))"
        proof
          assume "\<exists>t. validateWidgetAccess rq w = Inr (t_id t) \<and> findTenant (t_id t) w = Some t
           \<and> isExceeded (lim_conversations (t_limits t)) (conversationCount P (t_id t) w)"
          then obtain t' where a: "validateWidgetAccess rq w = Inr (t_id t')"
            and b: "findTenant (t_id t') w = Some t'"
            and c: "isExceeded (lim_conversations (t_limits t')) (conversationCount P (t_id t') w)"
            by blast
          have "t_id t' = tid" using a Inr by simp
          then have "t' = t" using b t(1) by simp
          then show False using c False t(2) by simp
        qed
        then show ?thesis using ne nl eq postMessage_written [of P prov rq w] by simp
      qed
    qed
  qed
  have v: "validateWidgetAccess (req\<lparr>conversationId := k\<rparr>) w = validateWidgetAccess req w"
    by (simp add: validateWidgetAccess_def)
  have a1: "(fst (fst (chatMessageRoute P prov limited req w)) = 429) =
      (limited
       \<or> (\<exists>t. validateWidgetAccess req w = Inr (t_id t) \<and> findTenant (t_id t) w = Some t
             \<and> isExceeded (lim_conversations (t_limits t)) (conversationCount P (t_id t) w)))"
    using main [of req] by (rule conjunct1)
  have a2: "fst (fst (chatMessageRoute P prov limited req w)) = 429 \<longrightarrow>
        snd (chatMessageRoute P prov limited req w) = w
        \<and> (if limited then snd (fst (chatMessageRoute P prov limited req w)) = TooManyMessages
            else \<exists>u l. snd (fst (chatMessageRoute P prov limited req w))
                          = LimitReached ''conversations'' u l)"
    using main [of req] by (rule conjunct2 [THEN conjunct1])
  have a3: "fst (fst (chatMessageRoute P prov limited req w)) = 200 \<longrightarrow>
        length (messages (snd (chatMessageRoute P prov limited req w)))
          = length (messages w) + 2"
    using main [of req] by (rule conjunct2 [THEN conjunct2])
  have b0: "(fst (fst (chatMessageRoute P prov limited (req\<lparr>conversationId := k\<rparr>) w)) = 429) =
      (limited
       \<or> (\<exists>t. validateWidgetAccess req w = Inr (t_id t) \<and> findTenant (t_id t) w = Some t
             \<and> isExceeded (lim_conversations (t_limits t)) (conversationCount P (t_id t) w)))"
    using main [of "req\<lparr>conversationId := k\<rparr>", THEN conjunct1] unfolding v .
  have b1: "(fst (fst (chatMessageRoute P prov limited (req\<lparr>conversationId := k\<rparr>) w)) = 429)
        = (fst (fst (chatMessageRoute P prov limited req w)) = 429)"
    using b0 a1 by (rule trans [OF _ sym])
  show ?thesis
    using a1 a2 b1 a3 by (intro conjI) assumption+
qed

theorem route_limit_gate_witness:
  "isExceeded (lim_messages (t_limits demoTenant)) (messageCount demoPlatform ''t1'' demoWorld)
   \<and> fst (fst (chatMessageRoute demoPlatform alwaysOk False continueRequest demoWorld)) \<noteq> 429
   \<and> conversationId otherRequest = Some foreignUuid
   \<and> findConversation foreignUuid demoWorld = Some foreignConversation
   \<and> fst (fst (chatMessageRoute demoPlatform alwaysOk False otherRequest demoWorld)) = 429
   \<and> snd (chatMessageRoute demoPlatform alwaysOk False otherRequest demoWorld) = demoWorld"
proof -
  have m: "isExceeded (lim_messages (t_limits demoTenant)) (messageCount demoPlatform ''t1'' demoWorld)"
    by code_simp
  have v1: "validateWidgetAccess continueRequest demoWorld = Inr ''t1''" by code_simp
  have t1: "findTenant ''t1'' demoWorld = Some demoTenant" by code_simp
  have e1: "\<not> isExceeded (lim_conversations (t_limits demoTenant))
              (conversationCount demoPlatform ''t1'' demoWorld)"
    by code_simp
  have n1: "\<not> (False \<or> (\<exists>t. validateWidgetAccess continueRequest demoWorld = Inr (t_id t)
           \<and> findTenant (t_id t) demoWorld = Some t
           \<and> isExceeded (lim_conversations (t_limits t))
               (conversationCount demoPlatform (t_id t) demoWorld)))"
    using v1 t1 e1 by auto
  have a: "fst (fst (chatMessageRoute demoPlatform alwaysOk False continueRequest demoWorld)) \<noteq> 429"
    using n1 route_limit_gate [of demoPlatform alwaysOk False continueRequest demoWorld] by blast
  have v2: "validateWidgetAccess otherRequest demoWorld = Inr (t_id otherTenant)" by code_simp
  have t2: "findTenant (t_id otherTenant) demoWorld = Some otherTenant" by code_simp
  have e2: "isExceeded (lim_conversations (t_limits otherTenant))
              (conversationCount demoPlatform (t_id otherTenant) demoWorld)"
    by code_simp
  have p2: "False \<or> (\<exists>t. validateWidgetAccess otherRequest demoWorld = Inr (t_id t)
           \<and> findTenant (t_id t) demoWorld = Some t
           \<and> isExceeded (lim_conversations (t_limits t))
               (conversationCount demoPlatform (t_id t) demoWorld))"
    using v2 t2 e2 by blast
  have b: "fst (fst (chatMessageRoute demoPlatform alwaysOk False otherRequest demoWorld)) = 429
     \<and> snd (chatMessageRoute demoPlatform alwaysOk False otherRequest demoWorld) = demoWorld"
    using p2 route_limit_gate [of demoPlatform alwaysOk False otherRequest demoWorld] by blast
  have c: "conversationId otherRequest = Some foreignUuid"
    "findConversation foreignUuid demoWorld = Some foreignConversation" by code_simp+
  show ?thesis using m a b c by simp
qed

end
